theory Spec2Isabelle
  imports Main "HOL-Library.Finite_Map"
begin

section \<open>Shared vocabulary\<close>

text \<open>
  Exceptions are values. A command that mutates its object returns an \<open>outcome\<close>: the
  object as it stands when the call returns, or as it stands when the exception leaves
  the call (Python keeps every mutation made before a \<open>raise\<close>). A query returns a sum
  with the exception on the left.
\<close>

datatype py_error =
    ValueError
  | RuntimeError
  | InvalidStateTrigger
  | UnboundLocalError
  | AttributeError
  | UserError

datatype 's outcome = Returned 's | Raised py_error 's

fun final :: "'s outcome \<Rightarrow> 's" where
  "final (Returned s) = s"
| "final (Raised e s) = s"

fun failed :: "'s outcome \<Rightarrow> bool" where
  "failed (Returned s) = False"
| "failed (Raised e s) = True"

text \<open>Sequencing of two commands: an exception in the first skips the second.\<close>

fun and_then :: "'s outcome \<Rightarrow> ('s \<Rightarrow> 's outcome) \<Rightarrow> 's outcome" where
  "and_then (Returned s) k = k s"
| "and_then (Raised e s) k = Raised e s"

section \<open>Accounts (accounting/accounts/base.pyx)\<close>

text \<open>
  A currency is its interned code, an account identifier its string value. A Money amount
  is a fixed-precision decimal of its currency; it is held as the integer number of the
  currency's smallest units, on which the sums of the source are exact.
\<close>

type_synonym Currency = string
type_synonym AccountId = string

record Money =
  amount :: int
  money_currency :: Currency

record AccountBalance =
  currency :: Currency
  total :: Money
  locked :: Money
  free :: Money

record AccountState =
  ev_account_id :: AccountId
  ev_base_currency :: "Currency option"
  ev_balances :: "AccountBalance list"

record Account =
  acc_id :: AccountId
  base_currency :: "Currency option"
  calculate_account_state :: bool
  starting_balances :: "Currency \<rightharpoonup> Money"
  events :: "AccountState list"
  balances :: "Currency \<rightharpoonup> AccountBalance"
  commissions :: "Currency \<rightharpoonup> Money"

text \<open>
  Modelled from the spec: the \<open>Condition\<close> checks (nautilus_trader.core.correctness) are
  not under src/. Each check raises ValueError when the condition it names fails and
  does nothing otherwise: \<open>Condition.equal(a, b)\<close> fails when \<open>a != b\<close>,
  \<open>Condition.true(p)\<close> when \<open>p\<close> is false, \<open>Condition.not_empty(xs)\<close> when \<open>xs\<close> has no
  element, \<open>Condition.not_none(x)\<close> when \<open>x\<close> is None.
\<close>

text \<open>The loop of \<open>update_balances\<close>: \<open>self._balances[balance.currency] = balance\<close>.\<close>

fun store_balances :: "AccountBalance list \<Rightarrow> (Currency \<rightharpoonup> AccountBalance) \<Rightarrow> (Currency \<rightharpoonup> AccountBalance)" where
  "store_balances [] m = m"
| "store_balances (b # bs) m = store_balances bs (m(currency b \<mapsto> b))"

definition update_balances :: "Account \<Rightarrow> AccountBalance list \<Rightarrow> Account outcome" where
  "update_balances acc bs =
     (if bs = [] then Raised ValueError acc
      else Returned (acc\<lparr>balances := store_balances bs (balances acc)\<rparr>))"

text \<open>
  \<open>Account.apply\<close>. The two identity checks and, for a single-currency account, the two
  checks on the balances come before anything is written; the event is appended before
  \<open>update_balances\<close> runs its own check.
\<close>

definition Account_apply :: "Account \<Rightarrow> AccountState \<Rightarrow> Account outcome" where
  "Account_apply acc event =
     (if ev_account_id event \<noteq> acc_id acc then Raised ValueError acc
      else if ev_base_currency event \<noteq> base_currency acc then Raised ValueError acc
      else if base_currency acc \<noteq> None \<and> length (ev_balances event) \<noteq> 1
        then Raised ValueError acc
      else if base_currency acc \<noteq> None
              \<and> Some (currency (hd (ev_balances event))) \<noteq> base_currency acc
        then Raised ValueError acc
      else update_balances (acc\<lparr>events := events acc @ [event]\<rparr>) (ev_balances event))"

text \<open>\<open>Account.__init__\<close>: the account is created from its first event.\<close>

definition Account_init :: "AccountState \<Rightarrow> bool \<Rightarrow> Account outcome" where
  "Account_init event calc =
     update_balances
       \<lparr>acc_id = ev_account_id event,
        base_currency = ev_base_currency event,
        calculate_account_state = calc,
        starting_balances = map_of (rev (map (\<lambda>b. (currency b, total b)) (ev_balances event))),
        events = [event],
        balances = Map.empty,
        commissions = Map.empty\<rparr>
       (ev_balances event)"

text \<open>A sequence of events applied in order; the first exception ends the run.\<close>

fun apply_all :: "Account \<Rightarrow> AccountState list \<Rightarrow> Account outcome" where
  "apply_all acc [] = Returned acc"
| "apply_all acc (e # es) = and_then (Account_apply acc e) (\<lambda>acc'. apply_all acc' es)"

text \<open>
  The queries. \<open>currency\<close> is the optional argument (None when the caller gives none);
  the result None is Python's None, the "no data" answer.
\<close>

definition resolve_currency :: "Account \<Rightarrow> Currency option \<Rightarrow> py_error + Currency" where
  "resolve_currency acc arg =
     (case (case arg of None \<Rightarrow> base_currency acc | Some c \<Rightarrow> Some c) of
        None \<Rightarrow> Inl ValueError
      | Some c \<Rightarrow> Inr c)"

definition balance :: "Account \<Rightarrow> Currency option \<Rightarrow> py_error + AccountBalance option" where
  "balance acc arg =
     (case resolve_currency acc arg of
        Inl e \<Rightarrow> Inl e
      | Inr c \<Rightarrow> Inr (balances acc c))"

definition balance_total :: "Account \<Rightarrow> Currency option \<Rightarrow> py_error + Money option" where
  "balance_total acc arg =
     (case resolve_currency acc arg of
        Inl e \<Rightarrow> Inl e
      | Inr c \<Rightarrow> (case balances acc c of None \<Rightarrow> Inr None | Some b \<Rightarrow> Inr (Some (total b))))"

definition balance_free :: "Account \<Rightarrow> Currency option \<Rightarrow> py_error + Money option" where
  "balance_free acc arg =
     (case resolve_currency acc arg of
        Inl e \<Rightarrow> Inl e
      | Inr c \<Rightarrow> (case balances acc c of None \<Rightarrow> Inr None | Some b \<Rightarrow> Inr (Some (free b))))"

definition balance_locked :: "Account \<Rightarrow> Currency option \<Rightarrow> py_error + Money option" where
  "balance_locked acc arg =
     (case resolve_currency acc arg of
        Inl e \<Rightarrow> Inl e
      | Inr c \<Rightarrow> (case balances acc c of None \<Rightarrow> Inr None | Some b \<Rightarrow> Inr (Some (locked b))))"

text \<open>
  \<open>update_commissions\<close>. The running total is read with the default \<open>Decimal(0)\<close>, the
  commission's decimal amount is added to it, and the sum is stored as a Money of the
  commission's currency.
\<close>

definition update_commissions :: "Account \<Rightarrow> Money \<Rightarrow> Account" where
  "update_commissions acc commission =
     (if amount commission = 0 then acc
      else
        let c = money_currency commission;
            total_commissions = (case commissions acc c of None \<Rightarrow> 0 | Some m \<Rightarrow> amount m)
        in acc\<lparr>commissions := (commissions acc)
              (c \<mapsto> \<lparr>amount = total_commissions + amount commission, money_currency = c\<rparr>)\<rparr>)"

section \<open>The trading strategy (trading/strategy.pyx)\<close>

subsection \<open>Data\<close>

text \<open>
  Identifiers are their string values; an indicator is named by the identity of the
  indicator object. A client order identifier is the number its generator gave it.
\<close>

type_synonym Symbol = string
type_synonym BarType = string
type_synonym Indicator = string
type_synonym ClientPositionId = string
type_synonym ClientOrderId = int

record QuoteTick =
  quote_symbol :: Symbol
  quote_timestamp :: int

record TradeTick =
  trade_symbol :: Symbol
  trade_timestamp :: int

record Bar =
  bar_timestamp :: int
  bar_close :: int

datatype OrderSide = UNDEFINED_SIDE | BUY | SELL

datatype MarketPosition = UNDEFINED | FLAT | LONG | SHORT

record Position =
  pos_symbol :: Symbol
  market_position :: MarketPosition
  pos_quantity :: int
  is_closed :: bool

record Order =
  cl_ord_id :: ClientOrderId
  ord_symbol :: Symbol
  ord_side :: OrderSide
  ord_quantity :: int

datatype Event =
    OrderInvalid ClientOrderId
  | OrderDenied ClientOrderId
  | OrderRejected ClientOrderId
  | OrderCancelled ClientOrderId
  | OrderExpired ClientOrderId
  | OrderFilled ClientOrderId
  | OrderCancelReject ClientOrderId
  | PositionClosed ClientPositionId
  | OtherEvent

text \<open>The commands a strategy hands to \<open>ExecutionEngine.execute_command\<close>, without
  the trader and account identifiers, the fresh UUID and the clock reading that every
  command carries.\<close>

datatype Command =
    SubmitOrder ClientPositionId Order
  | CancelOrder ClientOrderId

text \<open>A state dictionary: keys are Python \<open>str\<close> or \<open>bytes\<close> objects (never equal to
  each other), values are the objects stored under them.\<close>

datatype Key = Str string | Bytes string

datatype Val = IntVal int | BytesVal string | StrVal string

type_synonym StateDict = "(Key, Val) fmap"

datatype Callback =
    OnStart
  | OnStop
  | OnResume
  | OnReset
  | OnDispose
  | OnSave
  | OnLoad StateDict
  | OnQuoteTick QuoteTick
  | OnTradeTick TradeTick
  | OnBar BarType Bar
  | OnEvent Event

text \<open>What a strategy does to its collaborators, in the order it does it: an update
  delivered to an indicator, or a call of an overridable \<open>on_*\<close> method.\<close>

datatype Effect =
    IndQuote Indicator QuoteTick
  | IndTrade Indicator TradeTick
  | IndBar Indicator Bar
  | Call Callback

datatype LogLevel = DEBUG | INFO | WARNING | ERROR | EXCEPTION

datatype ComponentState =
    INITIALIZED
  | STARTING
  | RUNNING
  | STOPPING
  | STOPPED
  | RESUMING
  | RESETTING
  | DISPOSING
  | DISPOSED

text \<open>
  Modelled from the spec: the FiniteStateMachine class (nautilus_trader.core.fsm) and
  \<open>create_component_fsm\<close> (nautilus_trader.common.component) are not under src/. The
  machine is a transition table from (state, trigger string) to the next state and a
  current state; \<open>trigger\<close> moves along the table and raises InvalidStateTrigger (here
  None) when the table has no entry. The functions below take the table from the
  strategy, so what is proved of them holds for every table; \<open>component_table\<close> is the
  lifecycle graph of the spec, used where a concrete machine is run.
\<close>

record FiniteStateMachine =
  fsm_table :: "(ComponentState \<times> string) \<rightharpoonup> ComponentState"
  fsm_state :: ComponentState

definition trigger :: "FiniteStateMachine \<Rightarrow> string \<Rightarrow> FiniteStateMachine option" where
  "trigger m t =
     (case fsm_table m (fsm_state m, t) of
        None \<Rightarrow> None
      | Some st \<Rightarrow> Some (m\<lparr>fsm_state := st\<rparr>))"

definition component_table :: "(ComponentState \<times> string) \<rightharpoonup> ComponentState" where
  "component_table = map_of
     [((INITIALIZED, ''RESET''), RESETTING),
      ((INITIALIZED, ''START''), STARTING),
      ((INITIALIZED, ''DISPOSE''), DISPOSING),
      ((RESETTING, ''RESET''), INITIALIZED),
      ((STARTING, ''RUNNING''), RUNNING),
      ((STARTING, ''STOP''), STOPPING),
      ((RUNNING, ''STOP''), STOPPING),
      ((RESUMING, ''STOP''), STOPPING),
      ((RESUMING, ''RUNNING''), RUNNING),
      ((STOPPING, ''STOPPED''), STOPPED),
      ((STOPPED, ''RESET''), RESETTING),
      ((STOPPED, ''RESUME''), RESUMING),
      ((STOPPED, ''DISPOSE''), DISPOSING),
      ((DISPOSING, ''DISPOSED''), DISPOSED)]"

definition create_component_fsm :: FiniteStateMachine where
  "create_component_fsm = \<lparr>fsm_table = component_table, fsm_state = INITIALIZED\<rparr>"

text \<open>
  Modelled from the spec: the ExecutionEngine and its database
  (nautilus_trader.common.execution_engine) are collaborators that are not under src/.
  The engine is what the strategy sees of it: the answers of its database to the
  queries the strategy makes (\<open>get_position\<close>, \<open>get_positions_open(self.id).items()\<close>,
  \<open>get_orders_working(self.id).items()\<close>, \<open>get_client_position_id\<close>,
  \<open>is_position_open\<close>), and the commands it was given, oldest first:
  \<open>execute_command\<close> takes a command and answers nothing.
\<close>

record ExecutionEngine =
  db_positions :: "ClientPositionId \<rightharpoonup> Position"
  db_positions_open :: "(ClientPositionId \<times> Position) list"
  db_orders_working :: "(ClientOrderId \<times> Order) list"
  db_client_position_id :: "ClientOrderId \<rightharpoonup> ClientPositionId"
  db_open_ids :: "ClientPositionId set"
  executed :: "Command list"

datatype DataEngine = DataEngine

text \<open>
  The strategy object, once \<open>register_trader\<close> has given it its trader identifier,
  clock, UUID factory, logger, order factory and position identifier generator: of the
  clock the names of its timers are kept, of the two generators their counts, of the
  logger the levels of the records written. The data and execution engines stay
  optional, as \<open>start\<close> tests them.
\<close>

record Strategy =
  fsm :: FiniteStateMachine
  flatten_on_stop :: bool
  flatten_on_reject :: bool
  cancel_all_orders_on_stop :: bool
  reraise_exceptions :: bool
  order_count :: int
  position_count :: int
  timers :: "string list"
  flattening_ids :: "ClientPositionId set"
  stop_loss_ids :: "ClientOrderId set"
  take_profit_ids :: "ClientOrderId set"
  indicators :: "Indicator list"
  indicators_for_quotes :: "Symbol \<rightharpoonup> Indicator list"
  indicators_for_trades :: "Symbol \<rightharpoonup> Indicator list"
  indicators_for_bars :: "BarType \<rightharpoonup> Indicator list"
  data_engine :: "DataEngine option"
  exec_engine :: "ExecutionEngine option"
  trace :: "Effect list"
  logged :: "LogLevel list"

text \<open>
  The overridable methods are the user's code. A user is what those methods do as far
  as the strategy can tell: whether a call raises (given the call and everything the
  strategy did before it), and the dictionary \<open>on_save\<close> returns. The user's methods
  are taken not to call back into the strategy.
\<close>

record User =
  raises :: "Callback \<Rightarrow> Effect list \<Rightarrow> py_error option"
  on_save :: "Effect list \<Rightarrow> StateDict"

definition write_log :: "LogLevel \<Rightarrow> Strategy \<Rightarrow> Strategy" where
  "write_log lvl s = s\<lparr>logged := logged s @ [lvl]\<rparr>"

definition invoke :: "Callback \<Rightarrow> Strategy \<Rightarrow> Strategy" where
  "invoke cb s = s\<lparr>trace := trace s @ [Call cb]\<rparr>"

text \<open>The handlers' \<open>try: self.on_x(...) except Exception as ex: self.log.exception(ex);
  if self.reraise_exceptions: raise ex\<close>.\<close>

definition guarded_callback :: "User \<Rightarrow> Callback \<Rightarrow> Strategy \<Rightarrow> Strategy outcome" where
  "guarded_callback u cb s =
     (case raises u cb (trace s) of
        None \<Rightarrow> Returned (invoke cb s)
      | Some ex \<Rightarrow>
          if reraise_exceptions s then Raised ex (write_log EXCEPTION (invoke cb s))
          else Returned (write_log EXCEPTION (invoke cb s)))"

text \<open>The lifecycle methods' \<open>try: self.on_x() except Exception as ex:
  self.log.exception(ex)\<close>, after which the method goes on.\<close>

definition swallowed_callback :: "User \<Rightarrow> Callback \<Rightarrow> Strategy \<Rightarrow> Strategy" where
  "swallowed_callback u cb s =
     (case raises u cb (trace s) of
        None \<Rightarrow> invoke cb s
      | Some ex \<Rightarrow> write_log EXCEPTION (invoke cb s))"

text \<open>
  \<open>TradingStrategy.__init__\<close> with its four management flags, followed by
  \<open>register_trader\<close>: a fresh machine, fresh generators, no timer, nothing registered,
  nothing done yet.
\<close>

definition TradingStrategy_init :: "bool \<Rightarrow> bool \<Rightarrow> bool \<Rightarrow> bool \<Rightarrow> Strategy" where
  "TradingStrategy_init on_stop_flatten on_reject_flatten on_stop_cancel reraise =
     \<lparr>fsm = create_component_fsm,
      flatten_on_stop = on_stop_flatten,
      flatten_on_reject = on_reject_flatten,
      cancel_all_orders_on_stop = on_stop_cancel,
      reraise_exceptions = reraise,
      order_count = 0,
      position_count = 0,
      timers = [],
      flattening_ids = {},
      stop_loss_ids = {},
      take_profit_ids = {},
      indicators = [],
      indicators_for_quotes = Map.empty,
      indicators_for_trades = Map.empty,
      indicators_for_bars = Map.empty,
      data_engine = None,
      exec_engine = None,
      trace = [],
      logged = []\<rparr>"

subsection \<open>Registration\<close>

definition register_data_engine :: "Strategy \<Rightarrow> DataEngine \<Rightarrow> Strategy" where
  "register_data_engine s engine = s\<lparr>data_engine := Some engine\<rparr>"

definition register_execution_engine :: "Strategy \<Rightarrow> ExecutionEngine \<Rightarrow> Strategy" where
  "register_execution_engine s engine = s\<lparr>exec_engine := Some engine\<rparr>"

text \<open>The three \<open>register_indicator_for_*\<close> methods share one body over their own
  dictionary: the indicator joins \<open>_indicators\<close> once, the key gets an empty list when
  new, and the indicator is appended unless the list has it (then an error is logged).\<close>

definition register_in :: "('k \<rightharpoonup> Indicator list) \<Rightarrow> 'k \<Rightarrow> Indicator \<Rightarrow> ('k \<rightharpoonup> Indicator list)" where
  "register_in d k indicator =
     (let xs = (case d k of None \<Rightarrow> [] | Some ys \<Rightarrow> ys)
      in if indicator \<in> set xs then d(k \<mapsto> xs) else d(k \<mapsto> xs @ [indicator]))"

definition registered_in :: "('k \<rightharpoonup> Indicator list) \<Rightarrow> 'k \<Rightarrow> Indicator \<Rightarrow> bool" where
  "registered_in d k indicator = (case d k of None \<Rightarrow> False | Some ys \<Rightarrow> indicator \<in> set ys)"

definition add_indicator :: "Indicator \<Rightarrow> Strategy \<Rightarrow> Strategy" where
  "add_indicator indicator s =
     (if indicator \<in> set (indicators s) then s
      else s\<lparr>indicators := indicators s @ [indicator]\<rparr>)"


definition register_indicator_for_trade_ticks :: "Strategy \<Rightarrow> Symbol \<Rightarrow> Indicator \<Rightarrow> Strategy" where
  "register_indicator_for_trade_ticks s symbol indicator =
     (let s1 = add_indicator indicator s;
          s2 = s1\<lparr>indicators_for_trades := register_in (indicators_for_trades s1) symbol indicator\<rparr>
      in if registered_in (indicators_for_trades s1) symbol indicator
         then write_log ERROR s2 else s2)"

definition register_indicator_for_bars :: "Strategy \<Rightarrow> BarType \<Rightarrow> Indicator \<Rightarrow> Strategy" where
  "register_indicator_for_bars s bar_type indicator =
     (let s1 = add_indicator indicator s;
          s2 = s1\<lparr>indicators_for_bars := register_in (indicators_for_bars s1) bar_type indicator\<rparr>
      in if registered_in (indicators_for_bars s1) bar_type indicator
         then write_log ERROR s2 else s2)"

text \<open>
  \<open>register_stop_loss\<close> and \<open>register_take_profit\<close> are declared \<open>cpdef void\<close> without
  \<open>except *\<close>. The ValueError that \<open>Condition.not_in\<close> raises for an identifier already
  registered (the docstring's "Raises") therefore cannot leave the compiled method: it
  is reported and dropped there, the rest of the body is skipped, and the call returns
  with the strategy as it was.
\<close>

definition register_stop_loss :: "Strategy \<Rightarrow> Order \<Rightarrow> Strategy outcome" where
  "register_stop_loss s order =
     (if cl_ord_id order \<in> stop_loss_ids s then Returned s
      else Returned (write_log DEBUG (s\<lparr>stop_loss_ids := insert (cl_ord_id order) (stop_loss_ids s)\<rparr>)))"

definition register_take_profit :: "Strategy \<Rightarrow> Order \<Rightarrow> Strategy outcome" where
  "register_take_profit s order =
     (if cl_ord_id order \<in> take_profit_ids s then Returned s
      else Returned (write_log DEBUG (s\<lparr>take_profit_ids := insert (cl_ord_id order) (take_profit_ids s)\<rparr>)))"

subsection \<open>Market data handlers\<close>

text \<open>\<open>self._indicators_for_x.get(key)\<close> and the loop over it when it is not None.\<close>

definition registered_for :: "('k \<rightharpoonup> Indicator list) \<Rightarrow> 'k \<Rightarrow> Indicator list" where
  "registered_for d k = (case d k of None \<Rightarrow> [] | Some xs \<Rightarrow> xs)"

definition handle_quote_tick :: "User \<Rightarrow> Strategy \<Rightarrow> QuoteTick \<Rightarrow> bool \<Rightarrow> Strategy outcome" where
  "handle_quote_tick u s tick is_historical =
     (let s1 = s\<lparr>trace := trace s
                  @ map (\<lambda>i. IndQuote i tick) (registered_for (indicators_for_quotes s) (quote_symbol tick))\<rparr>
      in if is_historical then Returned s1
         else if fsm_state (fsm s1) = RUNNING then guarded_callback u (OnQuoteTick tick) s1
         else Returned s1)"

definition handle_trade_tick :: "User \<Rightarrow> Strategy \<Rightarrow> TradeTick \<Rightarrow> bool \<Rightarrow> Strategy outcome" where
  "handle_trade_tick u s tick is_historical =
     (let s1 = s\<lparr>trace := trace s
                  @ map (\<lambda>i. IndTrade i tick) (registered_for (indicators_for_trades s) (trade_symbol tick))\<rparr>
      in if is_historical then Returned s1
         else if fsm_state (fsm s1) = RUNNING then guarded_callback u (OnTradeTick tick) s1
         else Returned s1)"

definition handle_bar :: "User \<Rightarrow> Strategy \<Rightarrow> BarType \<Rightarrow> Bar \<Rightarrow> bool \<Rightarrow> Strategy outcome" where
  "handle_bar u s bar_type bar is_historical =
     (let s1 = s\<lparr>trace := trace s
                  @ map (\<lambda>i. IndBar i bar) (registered_for (indicators_for_bars s) bar_type)\<rparr>
      in if is_historical then Returned s1
         else if fsm_state (fsm s1) = RUNNING then guarded_callback u (OnBar bar_type bar) s1
         else Returned s1)"

text \<open>\<open>for i in range(length): self.handle_x(xs[i], is_historical=True)\<close>.\<close>

fun handle_quote_ticks_loop :: "User \<Rightarrow> Strategy \<Rightarrow> QuoteTick list \<Rightarrow> Strategy outcome" where
  "handle_quote_ticks_loop u s [] = Returned s"
| "handle_quote_ticks_loop u s (t # ts) =
     and_then (handle_quote_tick u s t True) (\<lambda>s'. handle_quote_ticks_loop u s' ts)"

definition handle_quote_ticks :: "User \<Rightarrow> Strategy \<Rightarrow> QuoteTick list \<Rightarrow> Strategy outcome" where
  "handle_quote_ticks u s ticks =
     handle_quote_ticks_loop u (write_log (if length ticks > 0 then INFO else WARNING) s) ticks"

fun handle_trade_ticks_loop :: "User \<Rightarrow> Strategy \<Rightarrow> TradeTick list \<Rightarrow> Strategy outcome" where
  "handle_trade_ticks_loop u s [] = Returned s"
| "handle_trade_ticks_loop u s (t # ts) =
     and_then (handle_trade_tick u s t True) (\<lambda>s'. handle_trade_ticks_loop u s' ts)"

definition handle_trade_ticks :: "User \<Rightarrow> Strategy \<Rightarrow> TradeTick list \<Rightarrow> Strategy outcome" where
  "handle_trade_ticks u s ticks =
     handle_trade_ticks_loop u (write_log (if length ticks > 0 then INFO else WARNING) s) ticks"

fun handle_bars_loop :: "User \<Rightarrow> Strategy \<Rightarrow> BarType \<Rightarrow> Bar list \<Rightarrow> Strategy outcome" where
  "handle_bars_loop u s bar_type [] = Returned s"
| "handle_bars_loop u s bar_type (b # bs) =
     and_then (handle_bar u s bar_type b True) (\<lambda>s'. handle_bars_loop u s' bar_type bs)"

definition handle_bars :: "User \<Rightarrow> Strategy \<Rightarrow> BarType \<Rightarrow> Bar list \<Rightarrow> Strategy outcome" where
  "handle_bars u s bar_type bars =
     (let len = length bars;
          s1 = write_log INFO s
      in if len > 0 \<and> bar_timestamp (bars ! 0) > bar_timestamp (bars ! (len - 1))
         then Raised RuntimeError s1
         else handle_bars_loop u s1 bar_type bars)"

subsection \<open>Order commands\<close>

text \<open>
  \<open>get_flatten_side\<close> is declared \<open>cpdef OrderSide\<close> without an except clause. The
  ValueError that its two \<open>Condition.not_equal\<close> checks raise for UNDEFINED and FLAT (the
  docstring's "Raises") therefore cannot leave the compiled method: it is reported and
  dropped there, and the method returns the zero of the enumeration,
  \<open>OrderSide.UNDEFINED\<close>.
\<close>

definition get_flatten_side :: "MarketPosition \<Rightarrow> OrderSide" where
  "get_flatten_side mp =
     (if mp = UNDEFINED then UNDEFINED_SIDE
      else if mp = FLAT then UNDEFINED_SIDE
      else if mp = SHORT then BUY else SELL)"

text \<open>
  Modelled from the spec: the OrderFactory (nautilus_trader.common.factories) is not
  under src/; it owns the order identifier sequence. \<open>market\<close> takes the next identifier
  of the sequence and returns a market order of the given symbol, side and quantity.
\<close>

definition market :: "Strategy \<Rightarrow> Symbol \<Rightarrow> OrderSide \<Rightarrow> int \<Rightarrow> Order \<times> Strategy" where
  "market s symbol side quantity =
     (\<lparr>cl_ord_id = order_count s + 1, ord_symbol = symbol, ord_side = side, ord_quantity = quantity\<rparr>,
      s\<lparr>order_count := order_count s + 1\<rparr>)"

definition execute_command :: "Command \<Rightarrow> ExecutionEngine \<Rightarrow> ExecutionEngine" where
  "execute_command command engine = engine\<lparr>executed := executed engine @ [command]\<rparr>"

definition submit_order :: "Strategy \<Rightarrow> Order \<Rightarrow> ClientPositionId \<Rightarrow> Strategy outcome" where
  "submit_order s order cl_pos_id =
     (case exec_engine s of
        None \<Rightarrow> Raised ValueError s
      | Some engine \<Rightarrow>
          Returned ((write_log INFO s)\<lparr>exec_engine := Some (execute_command (SubmitOrder cl_pos_id order) engine)\<rparr>))"

definition cancel_order :: "Strategy \<Rightarrow> Order \<Rightarrow> Strategy outcome" where
  "cancel_order s order =
     (case exec_engine s of
        None \<Rightarrow> Raised ValueError s
      | Some engine \<Rightarrow>
          Returned ((write_log INFO s)\<lparr>exec_engine := Some (execute_command (CancelOrder (cl_ord_id order)) engine)\<rparr>))"

fun cancel_all_orders_loop :: "Strategy \<Rightarrow> (ClientOrderId \<times> Order) list \<Rightarrow> Strategy outcome" where
  "cancel_all_orders_loop s [] = Returned s"
| "cancel_all_orders_loop s ((order_id, order) # rest) =
     (case exec_engine s of
        None \<Rightarrow> Raised AttributeError s
      | Some engine \<Rightarrow>
          cancel_all_orders_loop
            ((write_log INFO s)\<lparr>exec_engine := Some (execute_command (CancelOrder order_id) engine)\<rparr>) rest)"

definition cancel_all_orders :: "Strategy \<Rightarrow> Strategy outcome" where
  "cancel_all_orders s =
     (case exec_engine s of
        None \<Rightarrow> Raised ValueError s
      | Some engine \<Rightarrow>
          if length (db_orders_working engine) = 0 then Returned (write_log INFO s)
          else cancel_all_orders_loop (write_log INFO s) (db_orders_working engine))"

definition flatten_position :: "Strategy \<Rightarrow> ClientPositionId \<Rightarrow> Strategy outcome" where
  "flatten_position s cl_pos_id =
     (case exec_engine s of
        None \<Rightarrow> Raised ValueError s
      | Some engine \<Rightarrow>
          if cl_pos_id \<in> flattening_ids s then Returned (write_log WARNING s)
          else
            (case db_positions engine cl_pos_id of
               None \<Rightarrow> Returned (write_log ERROR s)
             | Some position \<Rightarrow>
                 if is_closed position then Returned (write_log WARNING s)
                 else
                   (case market s (pos_symbol position)
                           (get_flatten_side (market_position position)) (pos_quantity position) of
                      (order, s1) \<Rightarrow>
                        submit_order
                          (write_log INFO (s1\<lparr>flattening_ids := insert cl_pos_id (flattening_ids s1)\<rparr>))
                          order cl_pos_id)))"

fun flatten_all_positions_loop :: "Strategy \<Rightarrow> (ClientPositionId \<times> Position) list \<Rightarrow> Strategy outcome" where
  "flatten_all_positions_loop s [] = Returned s"
| "flatten_all_positions_loop s ((position_id, position) # rest) =
     (if is_closed position then flatten_all_positions_loop (write_log WARNING s) rest
      else
        (case market s (pos_symbol position)
                (get_flatten_side (market_position position)) (pos_quantity position) of
           (order, s1) \<Rightarrow>
             and_then (submit_order (write_log INFO s1) order position_id)
               (\<lambda>s2. flatten_all_positions_loop s2 rest)))"

definition flatten_all_positions :: "Strategy \<Rightarrow> Strategy outcome" where
  "flatten_all_positions s =
     (case exec_engine s of
        None \<Rightarrow> Raised ValueError s
      | Some engine \<Rightarrow>
          if length (db_positions_open engine) = 0 then Returned (write_log INFO s)
          else flatten_all_positions_loop (write_log INFO s) (db_positions_open engine))"

text \<open>\<open>_flatten_on_reject\<close>, given the rejected order's identifier.\<close>

definition flatten_on_reject_order :: "Strategy \<Rightarrow> ClientOrderId \<Rightarrow> Strategy outcome" where
  "flatten_on_reject_order s order_id =
     (if order_id \<notin> stop_loss_ids s \<and> order_id \<notin> take_profit_ids s then Returned s
      else
        (case exec_engine s of
           None \<Rightarrow> Raised AttributeError s
         | Some engine \<Rightarrow>
             (case db_client_position_id engine order_id of
                None \<Rightarrow> Returned (write_log ERROR s)
              | Some position_id \<Rightarrow>
                  if position_id \<in> db_open_ids engine
                  then flatten_position (write_log WARNING s) position_id
                  else Returned s)))"

subsection \<open>Events\<close>

fun is_order_completion_trigger :: "Event \<Rightarrow> ClientOrderId option" where
  "is_order_completion_trigger (OrderInvalid i) = Some i"
| "is_order_completion_trigger (OrderDenied i) = Some i"
| "is_order_completion_trigger (OrderRejected i) = Some i"
| "is_order_completion_trigger (OrderCancelled i) = Some i"
| "is_order_completion_trigger (OrderExpired i) = Some i"
| "is_order_completion_trigger (OrderFilled i) = Some i"
| "is_order_completion_trigger (OrderCancelReject i) = None"
| "is_order_completion_trigger (PositionClosed p) = None"
| "is_order_completion_trigger OtherEvent = None"

text \<open>The \<open>isinstance\<close> chain at the head of \<open>handle_event\<close>.\<close>

fun handle_event_bookkeeping :: "Strategy \<Rightarrow> Event \<Rightarrow> Strategy outcome" where
  "handle_event_bookkeeping s (OrderRejected i) =
     (if flatten_on_reject s then flatten_on_reject_order (write_log WARNING s) i
      else Returned (write_log WARNING s))"
| "handle_event_bookkeeping s (OrderCancelReject i) = Returned (write_log WARNING s)"
| "handle_event_bookkeeping s (PositionClosed p) =
     Returned (s\<lparr>flattening_ids := flattening_ids s - {p}\<rparr>)"
| "handle_event_bookkeeping s event = Returned (write_log INFO s)"

definition discard_registered :: "Event \<Rightarrow> Strategy \<Rightarrow> Strategy" where
  "discard_registered event s =
     (case is_order_completion_trigger event of
        None \<Rightarrow> s
      | Some i \<Rightarrow> s\<lparr>stop_loss_ids := stop_loss_ids s - {i}, take_profit_ids := take_profit_ids s - {i}\<rparr>)"

definition handle_event :: "User \<Rightarrow> Strategy \<Rightarrow> Event \<Rightarrow> Strategy outcome" where
  "handle_event u s event =
     and_then (handle_event_bookkeeping s event)
       (\<lambda>s1. let s2 = discard_registered event s1
             in if fsm_state (fsm s2) = RUNNING then guarded_callback u (OnEvent event) s2
                else Returned s2)"

subsection \<open>Lifecycle\<close>

definition stop :: "User \<Rightarrow> Strategy \<Rightarrow> Strategy outcome" where
  "stop u s =
     (case trigger (fsm s) ''STOP'' of
        None \<Rightarrow> Returned (write_log EXCEPTION s)
      | Some m \<Rightarrow>
          (let s1 = write_log INFO (s\<lparr>fsm := m\<rparr>);
               timer_names = timers s1;
               s2 = s1\<lparr>timers := []\<rparr>;
               s3 = fold (\<lambda>name. write_log INFO) timer_names s2
           in and_then (if flatten_on_stop s3 then flatten_all_positions s3 else Returned s3)
                (\<lambda>s4. and_then (if cancel_all_orders_on_stop s4 then cancel_all_orders s4 else Returned s4)
                   (\<lambda>s5. let s6 = swallowed_callback u OnStop s5
                         in (case trigger (fsm s6) ''STOPPED'' of
                               None \<Rightarrow> Raised InvalidStateTrigger s6
                             | Some m2 \<Rightarrow> Returned (write_log INFO (s6\<lparr>fsm := m2\<rparr>)))))))"

definition start :: "User \<Rightarrow> Strategy \<Rightarrow> Strategy outcome" where
  "start u s =
     (case trigger (fsm s) ''START'' of
        None \<Rightarrow> stop u (write_log EXCEPTION s)
      | Some m \<Rightarrow>
          (let s1 = write_log INFO (s\<lparr>fsm := m\<rparr>)
           in if data_engine s1 = None then Returned (write_log ERROR s1)
              else if exec_engine s1 = None then Returned (write_log ERROR s1)
              else
                (case raises u OnStart (trace s1) of
                   Some ex \<Rightarrow> stop u (write_log EXCEPTION (invoke OnStart s1))
                 | None \<Rightarrow>
                     (let s2 = invoke OnStart s1
                      in (case trigger (fsm s2) ''RUNNING'' of
                            None \<Rightarrow> Raised InvalidStateTrigger s2
                          | Some m2 \<Rightarrow> Returned (write_log INFO (s2\<lparr>fsm := m2\<rparr>)))))))"

definition resume :: "User \<Rightarrow> Strategy \<Rightarrow> Strategy outcome" where
  "resume u s =
     (case trigger (fsm s) ''RESUME'' of
        None \<Rightarrow> stop u (write_log EXCEPTION s)
      | Some m \<Rightarrow>
          (let s1 = write_log INFO (s\<lparr>fsm := m\<rparr>)
           in (case raises u OnResume (trace s1) of
                 Some ex \<Rightarrow> stop u (write_log EXCEPTION (invoke OnResume s1))
               | None \<Rightarrow>
                   (let s2 = invoke OnResume s1
                    in (case trigger (fsm s2) ''RUNNING'' of
                          None \<Rightarrow> Raised InvalidStateTrigger s2
                        | Some m2 \<Rightarrow> Returned (write_log INFO (s2\<lparr>fsm := m2\<rparr>)))))))"

text \<open>
  Modelled from the spec: the identifier generators are not under src/; their \<open>reset\<close>
  puts the count back to zero, \<open>set_count\<close> stores the count it is given.
\<close>

definition reset :: "User \<Rightarrow> Strategy \<Rightarrow> Strategy outcome" where
  "reset u s =
     (case trigger (fsm s) ''RESET'' of
        None \<Rightarrow> Returned (write_log EXCEPTION s)
      | Some m \<Rightarrow>
          (let s1 = write_log INFO (s\<lparr>fsm := m\<rparr>);
               s2 = s1\<lparr>order_count := 0, position_count := 0,
                       flattening_ids := {}, stop_loss_ids := {}, take_profit_ids := {},
                       indicators := [], indicators_for_quotes := Map.empty,
                       indicators_for_trades := Map.empty, indicators_for_bars := Map.empty\<rparr>;
               s3 = swallowed_callback u OnReset s2
           in (case trigger (fsm s3) ''RESET'' of
                 None \<Rightarrow> Raised InvalidStateTrigger s3
               | Some m2 \<Rightarrow> Returned (write_log INFO (s3\<lparr>fsm := m2\<rparr>)))))"

definition dispose :: "User \<Rightarrow> Strategy \<Rightarrow> Strategy outcome" where
  "dispose u s =
     (case trigger (fsm s) ''DISPOSE'' of
        None \<Rightarrow> Returned (write_log EXCEPTION s)
      | Some m \<Rightarrow>
          (let s1 = write_log INFO (s\<lparr>fsm := m\<rparr>);
               s2 = swallowed_callback u OnDispose s1
           in (case trigger (fsm s2) ''DISPOSED'' of
                 None \<Rightarrow> Raised InvalidStateTrigger s2
               | Some m2 \<Rightarrow> Returned (write_log INFO (s2\<lparr>fsm := m2\<rparr>)))))"

subsection \<open>Saving and loading\<close>

text \<open>
  \<open>save\<close> returns a dictionary or raises, and calls \<open>on_save\<close> on the way. When
  \<open>on_save\<close> raises, the exception is logged, \<open>user_state\<close> was never bound, and the
  \<open>return {**state, **user_state}\<close> raises UnboundLocalError.
\<close>

definition save :: "User \<Rightarrow> Strategy \<Rightarrow> (py_error + StateDict) \<times> Strategy" where
  "save u s =
     (let state = fmupd (Str ''PositionIdCount'') (IntVal (position_count s))
                    (fmupd (Str ''OrderIdCount'') (IntVal (order_count s)) fmempty)
      in (case raises u OnSave (trace s) of
            Some ex \<Rightarrow> (Inl UnboundLocalError, write_log EXCEPTION (invoke OnSave s))
          | None \<Rightarrow> (Inr (state ++\<^sub>f on_save u (trace s)), invoke OnSave s)))"

text \<open>Python's truth value of a stored object, as \<open>if order_id_count:\<close> takes it after
  \<open>state.get\<close> (a missing key gives None, which is false).\<close>

fun truthy :: "Val \<Rightarrow> bool" where
  "truthy (IntVal n) = (n \<noteq> 0)"
| "truthy (BytesVal b) = (b \<noteq> [])"
| "truthy (StrVal x) = (x \<noteq> [])"

text \<open>
  \<open>int(v.decode("utf8"))\<close>. Only a \<open>bytes\<close> object has \<open>decode\<close>; on it the builtin
  \<open>int\<close> of the decoded text is the parameter \<open>int_of_bytes\<close>, which answers the number or the
  exception the builtins raise.
\<close>

fun decode_int :: "(string \<Rightarrow> py_error + int) \<Rightarrow> Val \<Rightarrow> py_error + int" where
  "decode_int int_of_bytes (BytesVal b) = int_of_bytes b"
| "decode_int int_of_bytes (IntVal n) = Inl AttributeError"
| "decode_int int_of_bytes (StrVal x) = Inl AttributeError"

definition load_order_id_count :: "(string \<Rightarrow> py_error + int) \<Rightarrow> Strategy \<Rightarrow> StateDict \<Rightarrow> Strategy outcome" where
  "load_order_id_count int_of_bytes s state =
     (case fmlookup state (Bytes ''OrderIdCount'') of
        None \<Rightarrow> Returned s
      | Some v \<Rightarrow>
          if \<not> truthy v then Returned s
          else (case decode_int int_of_bytes v of
                  Inl e \<Rightarrow> Raised e s
                | Inr n \<Rightarrow> Returned (write_log INFO (s\<lparr>order_count := n\<rparr>))))"

definition load_position_id_count :: "(string \<Rightarrow> py_error + int) \<Rightarrow> Strategy \<Rightarrow> StateDict \<Rightarrow> Strategy outcome" where
  "load_position_id_count int_of_bytes s state =
     (case fmlookup state (Bytes ''PositionIdCount'') of
        None \<Rightarrow> Returned s
      | Some v \<Rightarrow>
          if \<not> truthy v then Returned s
          else (case decode_int int_of_bytes v of
                  Inl e \<Rightarrow> Raised e s
                | Inr n \<Rightarrow> Returned (write_log INFO (s\<lparr>position_count := n\<rparr>))))"

definition load :: "(string \<Rightarrow> py_error + int) \<Rightarrow> User \<Rightarrow> Strategy \<Rightarrow> StateDict \<Rightarrow> Strategy outcome" where
  "load int_of_bytes u s state =
     (if fmdom state = {||} then Raised ValueError s
      else and_then (load_order_id_count int_of_bytes s state)
             (\<lambda>s1. and_then (load_position_id_count int_of_bytes s1 state)
                (\<lambda>s2. Returned (swallowed_callback u (OnLoad state) s2))))"

text \<open>The builtin \<open>int\<close> on the decimal digits of ASCII, where it and Python agree; every
  other text is refused here. It stands for \<open>int_of_bytes\<close> in the examples, which give it
  digits only.\<close>

definition is_digit :: "char \<Rightarrow> bool" where
  "is_digit c = (48 \<le> (of_char c :: nat) \<and> (of_char c :: nat) \<le> 57)"

definition ascii_int :: "string \<Rightarrow> py_error + int" where
  "ascii_int b =
     (if b \<noteq> [] \<and> list_all is_digit b
      then Inr (foldl (\<lambda>n c. 10 * n + (int (of_char c) - 48)) 0 b)
      else Inl ValueError)"

subsection \<open>Runs of a strategy\<close>

text \<open>
  What can happen to a strategy between two moments: one of its methods is called, or
  the execution engine's database comes to answer differently (positions open and
  close outside the strategy). A caller that gets an exception keeps the object as the
  exception left it.
\<close>

datatype Action =
    FlattenPosition ClientPositionId
  | FlattenAllPositions
  | HandleEvent Event
  | Reset
  | Database ExecutionEngine

definition database_changed :: "ExecutionEngine \<Rightarrow> Strategy \<Rightarrow> Strategy" where
  "database_changed db s =
     (case exec_engine s of
        None \<Rightarrow> s
      | Some engine \<Rightarrow> s\<lparr>exec_engine := Some (db\<lparr>executed := executed engine\<rparr>)\<rparr>)"

fun perform :: "User \<Rightarrow> Strategy \<Rightarrow> Action \<Rightarrow> Strategy" where
  "perform u s (FlattenPosition p) = final (flatten_position s p)"
| "perform u s FlattenAllPositions = final (flatten_all_positions s)"
| "perform u s (HandleEvent e) = final (handle_event u s e)"
| "perform u s Reset = final (reset u s)"
| "perform u s (Database db) = database_changed db s"

fun run :: "User \<Rightarrow> Strategy \<Rightarrow> Action list \<Rightarrow> Strategy" where
  "run u s [] = s"
| "run u s (a # as) = run u (perform u s a) as"

text \<open>The commands the engine was given (none while no engine is registered), and among
  them the orders submitted for one position.\<close>

definition commands :: "Strategy \<Rightarrow> Command list" where
  "commands s = (case exec_engine s of None \<Rightarrow> [] | Some engine \<Rightarrow> executed engine)"

fun submits_for :: "ClientPositionId \<Rightarrow> Command \<Rightarrow> bool" where
  "submits_for p (SubmitOrder q order) = (p = q)"
| "submits_for p (CancelOrder i) = False"

definition orders_for :: "ClientPositionId \<Rightarrow> Strategy \<Rightarrow> Command list" where
  "orders_for p s = filter (submits_for p) (commands s)"

subsection \<open>Expected orders\<close>

text \<open>
  The orders that flattening a list of open positions calls for, written from the
  description rather than from the loop: for each position that is not closed, in the
  list's order, one market order on the position's symbol for the position's quantity,
  buying when the position is short and selling otherwise, with the next identifier of
  the sequence that stands at \<open>n\<close>.
\<close>

fun flatten_orders :: "int \<Rightarrow> (ClientPositionId \<times> Position) list \<Rightarrow> Command list" where
  "flatten_orders n [] = []"
| "flatten_orders n ((position_id, position) # rest) =
     (if is_closed position then flatten_orders n rest
      else SubmitOrder position_id
             \<lparr>cl_ord_id = n + 1,
              ord_symbol = pos_symbol position,
              ord_side = (if market_position position = SHORT then BUY else SELL),
              ord_quantity = pos_quantity position\<rparr>
           # flatten_orders (n + 1) rest)"

text \<open>The position a command submits an order for.\<close>

fun position_of :: "Command \<Rightarrow> ClientPositionId option" where
  "position_of (SubmitOrder p order) = Some p"
| "position_of (CancelOrder i) = None"

section \<open>Example objects\<close>

definition usd :: "int \<Rightarrow> Money" where
  "usd n = \<lparr>amount = n, money_currency = ''USD''\<rparr>"

definition coin :: "Currency \<Rightarrow> int \<Rightarrow> int \<Rightarrow> int \<Rightarrow> AccountBalance" where
  "coin c t l f =
     \<lparr>currency = c,
      total = \<lparr>amount = t, money_currency = c\<rparr>,
      locked = \<lparr>amount = l, money_currency = c\<rparr>,
      free = \<lparr>amount = f, money_currency = c\<rparr>\<rparr>"

definition usd_opening :: AccountState where
  "usd_opening = \<lparr>ev_account_id = ''SIM-001'', ev_base_currency = Some ''USD'',
                   ev_balances = [coin ''USD'' 10000 0 10000]\<rparr>"

definition usd_update :: AccountState where
  "usd_update = \<lparr>ev_account_id = ''SIM-001'', ev_base_currency = Some ''USD'',
                  ev_balances = [coin ''USD'' 9950 50 9900]\<rparr>"

definition usd_account :: Account where
  "usd_account = final (Account_init usd_opening True)"

definition multi_opening :: AccountState where
  "multi_opening = \<lparr>ev_account_id = ''BINANCE-001'', ev_base_currency = None,
                     ev_balances = [coin ''BTC'' 10 0 10, coin ''ETH'' 20 0 20]\<rparr>"


definition multi_account :: Account where
  "multi_account = final (Account_init multi_opening True)"

definition plain_user :: User where
  "plain_user = \<lparr>raises = (\<lambda>cb done. None), on_save = (\<lambda>done. fmempty)\<rparr>"

definition long_position :: Position where
  "long_position = \<lparr>pos_symbol = ''AUD/USD'', market_position = LONG,
                     pos_quantity = 100000, is_closed = False\<rparr>"

definition engine0 :: ExecutionEngine where
  "engine0 = \<lparr>db_positions = [''P-1'' \<mapsto> long_position],
               db_positions_open = [(''P-1'', long_position)],
               db_orders_working = [],
               db_client_position_id = [77 \<mapsto> ''P-1'', 78 \<mapsto> ''P-1''],
               db_open_ids = {''P-1''},
               executed = []\<rparr>"

definition strategy0 :: Strategy where
  "strategy0 =
     register_execution_engine
       (register_data_engine (TradingStrategy_init False True False True) DataEngine) engine0"

definition sell_order :: "ClientOrderId \<Rightarrow> Order" where
  "sell_order n = \<lparr>cl_ord_id = n, ord_symbol = ''AUD/USD'', ord_side = SELL, ord_quantity = 100000\<rparr>"

text \<open>The example strategy after one \<open>flatten_position\<close> of its open position.\<close>

definition flattening0 :: Strategy where
  "flattening0 = final (flatten_position strategy0 ''P-1'')"

text \<open>The example strategy with a stop-loss (77) and a take-profit (78) registered for
  its position, and the same after the stop-loss was rejected.\<close>

definition stop_loss_order :: Order where
  "stop_loss_order = \<lparr>cl_ord_id = 77, ord_symbol = ''AUD/USD'', ord_side = SELL, ord_quantity = 100000\<rparr>"

definition take_profit_order :: Order where
  "take_profit_order = \<lparr>cl_ord_id = 78, ord_symbol = ''AUD/USD'', ord_side = SELL, ord_quantity = 100000\<rparr>"

definition bracketed0 :: Strategy where
  "bracketed0 =
     final (register_take_profit (final (register_stop_loss strategy0 stop_loss_order)) take_profit_order)"

definition rejected0 :: Strategy where
  "rejected0 = final (handle_event plain_user bracketed0 (OrderRejected 77))"


definition charting0 :: Strategy where
  "charting0 = register_indicator_for_bars strategy0 ''AUD/USD-1-MIN'' ''ema10''"

text \<open>A strategy with the default flags that no engine was registered with, and a user
  whose \<open>on_start\<close> raises.\<close>

definition unregistered0 :: Strategy where
  "unregistered0 = TradingStrategy_init True True True True"

definition failing_user :: User where
  "failing_user = \<lparr>raises = (\<lambda>cb done. if cb = OnStart then Some UserError else None),
                    on_save = (\<lambda>done. fmempty)\<rparr>"

text \<open>State dictionaries: one as a byte-string store returns it, one with a user's key
  only, and a user whose \<open>on_save\<close> returns a key of its own.\<close>

definition stored_state :: StateDict where
  "stored_state = fmupd (Bytes ''PositionIdCount'') (BytesVal ''3'')
                    (fmupd (Bytes ''OrderIdCount'') (BytesVal ''17'') fmempty)"

definition user_only_state :: StateDict where
  "user_only_state = fmupd (Bytes ''UserKey'') (BytesVal ''1'') fmempty"

definition saving_user :: User where
  "saving_user = \<lparr>raises = (\<lambda>cb done. None),
                   on_save = (\<lambda>done. fmupd (Str ''UserKey'') (IntVal 1) fmempty)\<rparr>"

section \<open>Properties of accounts\<close>

subsection \<open>What the balance loop stores\<close>





lemma Account_apply_Returned:
  assumes "Account_apply acc event = Returned acc'"
  shows "acc' = acc\<lparr>events := events acc @ [event],
                     balances := store_balances (ev_balances event) (balances acc)\<rparr>"
  using assms by (auto simp: Account_apply_def update_balances_def split: if_splits)

text \<open>A run of events that all apply stores the balances of all of them, in order.\<close>

lemma apply_all_balances:
  "apply_all acc es = Returned acc' \<Longrightarrow>
     balances acc' = store_balances (concat (map ev_balances es)) (balances acc)
     \<and> events acc' = events acc @ es"
proof (induction es arbitrary: acc)
  case Nil
  then show ?case by simp
next
  case (Cons e es)
  then obtain acc1 where 1: "Account_apply acc e = Returned acc1"
    and 2: "apply_all acc1 es = Returned acc'"
    by (cases "Account_apply acc e") auto
  have store_append: "store_balances (xs @ ys) m = store_balances ys (store_balances xs m)"
    for xs ys :: "AccountBalance list" and m
    by (induction xs arbitrary: m) auto
  from Account_apply_Returned [OF 1] Cons.IH [OF 2] show ?case
    by (simp add: store_append)
qed

lemma multi_account_eval:
  "multi_account =
     \<lparr>acc_id = ''BINANCE-001'', base_currency = None, calculate_account_state = True,
      starting_balances = map_of [(''ETH'', total (coin ''ETH'' 20 0 20)), (''BTC'', total (coin ''BTC'' 10 0 10))],
      events = [multi_opening],
      balances = [''BTC'' \<mapsto> coin ''BTC'' 10 0 10, ''ETH'' \<mapsto> coin ''ETH'' 20 0 20],
      commissions = Map.empty\<rparr>"
  by (simp add: multi_account_def Account_init_def update_balances_def multi_opening_def coin_def)


lemma usd_account_eval:
  "usd_account =
     \<lparr>acc_id = ''SIM-001'', base_currency = Some ''USD'', calculate_account_state = True,
      starting_balances = [''USD'' \<mapsto> total (coin ''USD'' 10000 0 10000)],
      events = [usd_opening],
      balances = [''USD'' \<mapsto> coin ''USD'' 10000 0 10000],
      commissions = Map.empty\<rparr>"
  by (simp add: usd_account_def Account_init_def update_balances_def usd_opening_def coin_def)



text \<open>
  C2. An event of another account, an event whose base currency is not the account's,
  and, on a single-currency account, an event that does not carry exactly one balance
  or carries a balance of another currency, are refused with an exception, and the
  account at that moment is the account as it was: log, balances and all.
\<close>

theorem apply_rejects_unchanged:
  assumes "ev_account_id event \<noteq> acc_id acc
         \<or> ev_base_currency event \<noteq> base_currency acc
         \<or> (base_currency acc \<noteq> None
             \<and> (length (ev_balances event) \<noteq> 1
                \<or> (\<exists>b \<in> set (ev_balances event). Some (currency b) \<noteq> base_currency acc)))"
  shows "Account_apply acc event = Raised ValueError acc"
proof -
  have one: "hd xs = b" if "length xs = Suc 0" and "b \<in> set xs"
    for xs :: "AccountBalance list" and b
    using that by (cases xs) auto
  show ?thesis
    using assms by (auto simp: Account_apply_def dest: one)
qed

theorem apply_rejects_unchanged_witness:
  "Account_apply usd_account (usd_update\<lparr>ev_account_id := ''SIM-002''\<rparr>) = Raised ValueError usd_account
   \<and> Account_apply usd_account (usd_update\<lparr>ev_base_currency := None\<rparr>) = Raised ValueError usd_account
   \<and> Account_apply usd_account (usd_update\<lparr>ev_balances := []\<rparr>) = Raised ValueError usd_account
   \<and> Account_apply usd_account (usd_update\<lparr>ev_balances := [coin ''EUR'' 1 0 1]\<rparr>) = Raised ValueError usd_account"
proof -
  have b: "base_currency usd_account = Some ''USD''" and i: "acc_id usd_account = ''SIM-001''"
    by (simp_all add: usd_account_def Account_init_def update_balances_def usd_opening_def)
  have 1: "Account_apply usd_account (usd_update\<lparr>ev_account_id := ''SIM-002''\<rparr>) = Raised ValueError usd_account"
    by (rule apply_rejects_unchanged) (simp add: i)
  have 2: "Account_apply usd_account (usd_update\<lparr>ev_base_currency := None\<rparr>) = Raised ValueError usd_account"
    by (rule apply_rejects_unchanged) (simp add: b)
  have 3: "Account_apply usd_account (usd_update\<lparr>ev_balances := []\<rparr>) = Raised ValueError usd_account"
    by (rule apply_rejects_unchanged) (simp add: b)
  have 4: "Account_apply usd_account (usd_update\<lparr>ev_balances := [coin ''EUR'' 1 0 1]\<rparr>) = Raised ValueError usd_account"
    by (rule apply_rejects_unchanged) (simp add: b coin_def)
  from 1 2 3 4 show ?thesis by blast
qed

text \<open>
  C8. With a currency argument the four balance queries read that currency's entry and
  nothing else; without one they read the base currency's entry; without argument and
  without base currency they raise. For the currency so resolved, supplied or base, a
  missing entry is answered with None; and a Money they answer is always a field of the
  recorded balance of the resolved currency, never a made-up zero.
\<close>

theorem balance_queries_resolve:
  "(\<forall>c. resolve_currency acc (Some c) = Inr c
       \<and> balance acc (Some c) = Inr (balances acc c)
       \<and> balance_total acc (Some c) = Inr (map_option total (balances acc c))
       \<and> balance_free acc (Some c) = Inr (map_option free (balances acc c))
       \<and> balance_locked acc (Some c) = Inr (map_option locked (balances acc c)))
   \<and> resolve_currency acc None
         = (case base_currency acc of None \<Rightarrow> Inl ValueError | Some c \<Rightarrow> Inr c)
   \<and> (\<forall>c. base_currency acc = Some c \<longrightarrow>
       balance acc None = Inr (balances acc c)
     \<and> balance_total acc None = Inr (map_option total (balances acc c))
     \<and> balance_free acc None = Inr (map_option free (balances acc c))
     \<and> balance_locked acc None = Inr (map_option locked (balances acc c)))
   \<and> (base_currency acc = None \<longrightarrow>
       balance acc None = Inl ValueError
     \<and> balance_total acc None = Inl ValueError
     \<and> balance_free acc None = Inl ValueError
     \<and> balance_locked acc None = Inl ValueError)
   \<and> (\<forall>c. balances acc c = None \<longrightarrow>
       balance acc (Some c) = Inr None
     \<and> balance_total acc (Some c) = Inr None
     \<and> balance_free acc (Some c) = Inr None
     \<and> balance_locked acc (Some c) = Inr None)
   \<and> (\<forall>c. base_currency acc = Some c \<and> balances acc c = None \<longrightarrow>
       balance acc None = Inr None
     \<and> balance_total acc None = Inr None
     \<and> balance_free acc None = Inr None
     \<and> balance_locked acc None = Inr None)
   \<and> (\<forall>c. resolve_currency acc arg = Inr c \<and> balances acc c = None \<longrightarrow>
       balance acc arg = Inr None
     \<and> balance_total acc arg = Inr None
     \<and> balance_free acc arg = Inr None
     \<and> balance_locked acc arg = Inr None)
   \<and> (\<forall>m. balance_total acc arg = Inr (Some m) \<or> balance_free acc arg = Inr (Some m)
           \<or> balance_locked acc arg = Inr (Some m) \<longrightarrow>
         (\<exists>c b. resolve_currency acc arg = Inr c \<and> balances acc c = Some b
                \<and> m \<in> {total b, free b, locked b}))
   \<and> (\<forall>c m. balance_total acc (Some c) = Inr (Some m) \<or> balance_free acc (Some c) = Inr (Some m)
           \<or> balance_locked acc (Some c) = Inr (Some m) \<longrightarrow>
         (\<exists>b. balances acc c = Some b \<and> m \<in> {total b, free b, locked b}))"
proof -
  have supplied: "\<forall>c. resolve_currency acc (Some c) = Inr c
       \<and> balance acc (Some c) = Inr (balances acc c)
       \<and> balance_total acc (Some c) = Inr (map_option total (balances acc c))
       \<and> balance_free acc (Some c) = Inr (map_option free (balances acc c))
       \<and> balance_locked acc (Some c) = Inr (map_option locked (balances acc c))"
    by (simp add: balance_def balance_total_def balance_free_def balance_locked_def
          resolve_currency_def split: option.splits)
  have implicit: "resolve_currency acc None
         = (case base_currency acc of None \<Rightarrow> Inl ValueError | Some c \<Rightarrow> Inr c)"
    by (simp add: resolve_currency_def)
  have base: "\<forall>c. base_currency acc = Some c \<longrightarrow>
       balance acc None = Inr (balances acc c)
     \<and> balance_total acc None = Inr (map_option total (balances acc c))
     \<and> balance_free acc None = Inr (map_option free (balances acc c))
     \<and> balance_locked acc None = Inr (map_option locked (balances acc c))"
    by (simp add: balance_def balance_total_def balance_free_def balance_locked_def
          resolve_currency_def split: option.splits)
  have missing: "base_currency acc = None \<longrightarrow>
       balance acc None = Inl ValueError
     \<and> balance_total acc None = Inl ValueError
     \<and> balance_free acc None = Inl ValueError
     \<and> balance_locked acc None = Inl ValueError"
    by (simp add: balance_def balance_total_def balance_free_def balance_locked_def
          resolve_currency_def)
  have nodata_supplied: "\<forall>c. balances acc c = None \<longrightarrow>
       balance acc (Some c) = Inr None
     \<and> balance_total acc (Some c) = Inr None
     \<and> balance_free acc (Some c) = Inr None
     \<and> balance_locked acc (Some c) = Inr None"
    using supplied by simp
  have nodata_base: "\<forall>c. base_currency acc = Some c \<and> balances acc c = None \<longrightarrow>
       balance acc None = Inr None
     \<and> balance_total acc None = Inr None
     \<and> balance_free acc None = Inr None
     \<and> balance_locked acc None = Inr None"
    using base by simp
  have nodata: "\<forall>c. resolve_currency acc arg = Inr c \<and> balances acc c = None \<longrightarrow>
       balance acc arg = Inr None
     \<and> balance_total acc arg = Inr None
     \<and> balance_free acc arg = Inr None
     \<and> balance_locked acc arg = Inr None"
    by (simp add: balance_def balance_total_def balance_free_def balance_locked_def)
  have recorded: "\<forall>m. balance_total acc arg = Inr (Some m) \<or> balance_free acc arg = Inr (Some m)
           \<or> balance_locked acc arg = Inr (Some m) \<longrightarrow>
         (\<exists>c b. resolve_currency acc arg = Inr c \<and> balances acc c = Some b
                \<and> m \<in> {total b, free b, locked b})"
    by (auto simp: balance_total_def balance_free_def balance_locked_def
             split: sum.splits option.splits)
  have recorded_supplied: "\<forall>c m. balance_total acc (Some c) = Inr (Some m)
           \<or> balance_free acc (Some c) = Inr (Some m)
           \<or> balance_locked acc (Some c) = Inr (Some m) \<longrightarrow>
         (\<exists>b. balances acc c = Some b \<and> m \<in> {total b, free b, locked b})"
    using supplied by auto
  from supplied implicit base missing nodata_supplied nodata_base nodata recorded recorded_supplied
  show ?thesis by blast
qed

theorem balance_queries_resolve_witness:
  "balance_total usd_account None = Inr (Some \<lparr>amount = 10000, money_currency = ''USD''\<rparr>)
   \<and> balance_total usd_account (Some ''USD'') = Inr (Some \<lparr>amount = 10000, money_currency = ''USD''\<rparr>)
   \<and> balance_total usd_account (Some ''EUR'') = Inr None
   \<and> balance usd_account (Some ''EUR'') = Inr None
   \<and> (\<exists>c b. resolve_currency usd_account None = Inr c \<and> balances usd_account c = Some b
          \<and> \<lparr>amount = 10000, money_currency = ''USD''\<rparr> \<in> {total b, free b, locked b})
   \<and> (\<exists>b. balances usd_account ''USD'' = Some b
          \<and> \<lparr>amount = 10000, money_currency = ''USD''\<rparr> \<in> {total b, free b, locked b})
   \<and> balance_free multi_account None = Inl ValueError
   \<and> balance_locked multi_account (Some ''USD'') = Inr None
   \<and> balance_free multi_account (Some ''ETH'') = Inr (Some \<lparr>amount = 20, money_currency = ''ETH''\<rparr>)"
proof -
  have "base_currency usd_account = Some ''USD''" by (simp add: usd_account_eval)
  with balance_queries_resolve [of usd_account None]
  have "balance_total usd_account None = Inr (map_option total (balances usd_account ''USD''))"
    by blast
  then have 1: "balance_total usd_account None = Inr (Some \<lparr>amount = 10000, money_currency = ''USD''\<rparr>)"
    by (simp add: usd_account_eval coin_def)
  with balance_queries_resolve [of usd_account None]
  have 2: "\<exists>c b. resolve_currency usd_account None = Inr c \<and> balances usd_account c = Some b
          \<and> \<lparr>amount = 10000, money_currency = ''USD''\<rparr> \<in> {total b, free b, locked b}"
    by blast
  from balance_queries_resolve [of usd_account None]
  have "balance_total usd_account (Some ''USD'') = Inr (map_option total (balances usd_account ''USD''))"
    by blast
  then have 3: "balance_total usd_account (Some ''USD'') = Inr (Some \<lparr>amount = 10000, money_currency = ''USD''\<rparr>)"
    by (simp add: usd_account_eval coin_def)
  with balance_queries_resolve [of usd_account None]
  have 4: "\<exists>b. balances usd_account ''USD'' = Some b
          \<and> \<lparr>amount = 10000, money_currency = ''USD''\<rparr> \<in> {total b, free b, locked b}"
    by blast
  have "balances usd_account ''EUR'' = None" by (simp add: usd_account_eval)
  with balance_queries_resolve [of usd_account None]
  have 5: "balance_total usd_account (Some ''EUR'') = Inr None"
    and 6: "balance usd_account (Some ''EUR'') = Inr None"
    by blast+
  have "base_currency multi_account = None" by (simp add: multi_account_eval)
  with balance_queries_resolve [of multi_account None]
  have 7: "balance_free multi_account None = Inl ValueError" by blast
  have "balances multi_account ''USD'' = None" by (simp add: multi_account_eval)
  with balance_queries_resolve [of multi_account None]
  have 8: "balance_locked multi_account (Some ''USD'') = Inr None" by blast
  from balance_queries_resolve [of multi_account None]
  have "balance_free multi_account (Some ''ETH'') = Inr (map_option free (balances multi_account ''ETH''))"
    by blast
  then have 9: "balance_free multi_account (Some ''ETH'') = Inr (Some \<lparr>amount = 20, money_currency = ''ETH''\<rparr>)"
    by (simp add: multi_account_eval coin_def)
  from 1 2 3 4 5 6 7 8 9 show ?thesis by blast
qed

text \<open>
  C9. A commission of amount zero leaves the account as it is. Any other commission,
  positive or negative, is added to the running total of its currency (zero when there
  was none), the totals of the other currencies and the rest of the account stay.
\<close>

theorem update_commissions_total:
  "(amount commission = 0 \<longrightarrow> update_commissions acc commission = acc)
   \<and> (amount commission \<noteq> 0 \<longrightarrow>
        commissions (update_commissions acc commission) (money_currency commission)
          = Some \<lparr>amount = (case commissions acc (money_currency commission) of
                              None \<Rightarrow> 0 | Some t \<Rightarrow> amount t) + amount commission,
                   money_currency = money_currency commission\<rparr>
      \<and> (\<forall>c. c \<noteq> money_currency commission \<longrightarrow>
            commissions (update_commissions acc commission) c = commissions acc c)
      \<and> update_commissions acc commission
          = acc\<lparr>commissions := commissions (update_commissions acc commission)\<rparr>)"
  by (simp add: update_commissions_def Let_def)

theorem update_commissions_total_witness:
  "update_commissions usd_account (usd 0) = usd_account
   \<and> commissions (update_commissions (update_commissions usd_account (usd 5)) (usd (- 2))) ''USD''
       = Some (usd 3)
   \<and> commissions (update_commissions (update_commissions usd_account (usd 5)) (usd (- 2))) ''EUR''
       = None"
proof -
  have 1: "update_commissions usd_account (usd 0) = usd_account"
    using update_commissions_total [of "usd 0" usd_account] by (simp add: usd_def)
  define a1 where "a1 = update_commissions usd_account (usd 5)"
  have s1: "commissions a1 ''USD'' = Some (usd 5)" and e1: "commissions a1 ''EUR'' = None"
    using update_commissions_total [of "usd 5" usd_account]
    by (simp_all add: a1_def usd_def usd_account_eval)
  have 2: "commissions (update_commissions a1 (usd (- 2))) ''USD'' = Some (usd 3)"
    using update_commissions_total [of "usd (- 2)" a1] s1 by (simp add: usd_def)
  have 3: "commissions (update_commissions a1 (usd (- 2))) ''EUR'' = None"
    using update_commissions_total [of "usd (- 2)" a1] e1 by (simp add: usd_def)
  from 1 2 3 show ?thesis unfolding a1_def by blast
qed

section \<open>Properties of the trading strategy\<close>

subsection \<open>Frame facts\<close>

lemma commands_write_log [simp]: "commands (write_log l s) = commands s"
  by (simp add: commands_def write_log_def)

lemma flattening_write_log [simp]: "flattening_ids (write_log l s) = flattening_ids s"
  by (simp add: write_log_def)

lemma exec_engine_write_log [simp]: "exec_engine (write_log l s) = exec_engine s"
  by (simp add: write_log_def)

lemma order_count_write_log [simp]: "order_count (write_log l s) = order_count s"
  by (simp add: write_log_def)

lemma submit_order_registered:
  "exec_engine s = Some engine \<Longrightarrow>
     \<exists>s'. submit_order s order p = Returned s'
        \<and> commands s' = commands s @ [SubmitOrder p order]
        \<and> flattening_ids s' = flattening_ids s
        \<and> order_count s' = order_count s
        \<and> exec_engine s' = Some (engine\<lparr>executed := executed engine @ [SubmitOrder p order]\<rparr>)"
  by (simp add: submit_order_def commands_def execute_command_def write_log_def)

lemma flatten_all_positions_loop_flattening:
  "flattening_ids (final (flatten_all_positions_loop s ps)) = flattening_ids s"
proof (induction ps arbitrary: s)
  case Nil
  then show ?case by simp
next
  case (Cons a ps)
  obtain p pos where a: "a = (p, pos)" by (cases a)
  show ?case
  proof (cases "is_closed pos")
    case True
    with a Cons.IH show ?thesis by simp
  next
    case False
    show ?thesis
    proof (cases "exec_engine s")
      case None
      with a False show ?thesis
        by (simp add: market_def submit_order_def)
    next
      case (Some engine)
      with a False Cons.IH show ?thesis
        by (simp add: market_def submit_order_def)
    qed
  qed
qed

lemma flatten_all_positions_flattening:
  "flattening_ids (final (flatten_all_positions s)) = flattening_ids s"
  by (simp add: flatten_all_positions_def flatten_all_positions_loop_flattening split: option.splits)

lemma get_flatten_side_open:
  "mp \<in> {LONG, SHORT} \<Longrightarrow> get_flatten_side mp = (if mp = SHORT then BUY else SELL)"
  by (auto simp: get_flatten_side_def)

lemma flatten_all_positions_loop_orders:
  assumes "exec_engine s \<noteq> None"
    and "\<forall>(p, pos) \<in> set ps. \<not> is_closed pos \<longrightarrow> market_position pos \<in> {LONG, SHORT}"
  shows "\<exists>s'. flatten_all_positions_loop s ps = Returned s'
           \<and> commands s' = commands s @ flatten_orders (order_count s) ps"
  using assms
proof (induction ps arbitrary: s)
  case Nil
  then show ?case by simp
next
  case (Cons a ps)
  obtain p pos where a: "a = (p, pos)" by (cases a)
  from Cons.prems obtain engine where eng: "exec_engine s = Some engine" by auto
  from Cons.prems(2) have rest: "\<forall>(p, pos) \<in> set ps. \<not> is_closed pos \<longrightarrow> market_position pos \<in> {LONG, SHORT}"
    by simp
  show ?case
  proof (cases "is_closed pos")
    case True
    have "exec_engine (write_log WARNING s) \<noteq> None" using eng by simp
    from Cons.IH [OF this rest] True a show ?thesis by simp
  next
    case False
    with Cons.prems(2) a have side: "get_flatten_side (market_position pos)
        = (if market_position pos = SHORT then BUY else SELL)"
      by (simp add: get_flatten_side_open)
    define order where "order = \<lparr>cl_ord_id = order_count s + 1, ord_symbol = pos_symbol pos,
        ord_side = (if market_position pos = SHORT then BUY else SELL), ord_quantity = pos_quantity pos\<rparr>"
    define s1 where "s1 = write_log INFO (s\<lparr>order_count := order_count s + 1\<rparr>)"
    have e1: "exec_engine s1 = Some engine" by (simp add: s1_def eng)
    from submit_order_registered [OF e1, of order p]
    obtain s2 where s2: "submit_order s1 order p = Returned s2"
      and c2: "commands s2 = commands s1 @ [SubmitOrder p order]"
      and n2: "order_count s2 = order_count s1"
      and e2: "exec_engine s2 \<noteq> None"
      by auto
    from Cons.IH [OF e2 rest] obtain s' where
      s': "flatten_all_positions_loop s2 ps = Returned s'"
      and c': "commands s' = commands s2 @ flatten_orders (order_count s2) ps"
      by blast
    have c1: "commands s1 = commands s" and n1: "order_count s1 = order_count s + 1"
      by (simp_all add: s1_def commands_def)
    have "flatten_all_positions_loop s (a # ps) = Returned s'"
      using a False side s2 s' by (simp add: market_def order_def s1_def)
    moreover have "commands s' = commands s @ flatten_orders (order_count s) (a # ps)"
      using a False c' c2 c1 n2 n1 by (simp add: order_def)
    ultimately show ?thesis by blast
  qed
qed


lemma flatten_orders_positions:
  "map position_of (flatten_orders n ps) = map (Some \<circ> fst) (filter (\<lambda>(p, pos). \<not> is_closed pos) ps)"
  by (induction n ps rule: flatten_orders.induct) auto


subsection \<open>Evaluation of the example strategy\<close>

lemma strategy0_eval:
  "strategy0 = (TradingStrategy_init False True False True)
     \<lparr>data_engine := Some DataEngine, exec_engine := Some engine0\<rparr>"
  by (simp add: strategy0_def register_execution_engine_def register_data_engine_def)

lemma flattening0_eval:
  "flatten_position strategy0 ''P-1'' = Returned flattening0"
  "flattening0 = strategy0
     \<lparr>order_count := 1, flattening_ids := {''P-1''},
      exec_engine := Some (engine0\<lparr>executed := [SubmitOrder ''P-1'' (sell_order 1)]\<rparr>),
      logged := [INFO, INFO]\<rparr>"
  by (simp_all add: flattening0_def flatten_position_def strategy0_eval TradingStrategy_init_def engine0_def
        long_position_def get_flatten_side_def market_def submit_order_def write_log_def
        execute_command_def sell_order_def)


lemmas strategy_defs =
  flatten_position_def flatten_on_reject_order_def handle_event_def discard_registered_def
  guarded_callback_def invoke_def write_log_def market_def submit_order_def execute_command_def
  get_flatten_side_def register_stop_loss_def register_take_profit_def

lemmas example_defs =
  TradingStrategy_init_def create_component_fsm_def engine0_def long_position_def
  plain_user_def stop_loss_order_def take_profit_order_def sell_order_def

lemma bracketed0_eval:
  "bracketed0 = strategy0\<lparr>stop_loss_ids := {77}, take_profit_ids := {78}, logged := [DEBUG, DEBUG]\<rparr>"
  by (simp add: bracketed0_def strategy0_eval strategy_defs example_defs)

lemma rejected0_eval:
  "rejected0 = strategy0
     \<lparr>order_count := 1, flattening_ids := {''P-1''},
      stop_loss_ids := {}, take_profit_ids := {78},
      exec_engine := Some (engine0\<lparr>executed := [SubmitOrder ''P-1'' (sell_order 1)]\<rparr>),
      logged := [DEBUG, DEBUG, WARNING, WARNING, INFO, INFO]\<rparr>"
  by (simp add: rejected0_def bracketed0_eval strategy0_eval strategy_defs example_defs)

lemmas reset_defs = reset_def trigger_def swallowed_callback_def component_table_def

lemma reset_flattening0:
  "reset plain_user flattening0 = Returned (strategy0
     \<lparr>exec_engine := Some (engine0\<lparr>executed := [SubmitOrder ''P-1'' (sell_order 1)]\<rparr>),
      trace := [Call OnReset],
      logged := [INFO, INFO, INFO, INFO]\<rparr>)"
  by (simp add: flattening0_eval strategy0_eval reset_defs strategy_defs example_defs)

subsection \<open>The in-flight guard\<close>

lemma final_and_then:
  "final (and_then r k) = (case r of Returned s \<Rightarrow> final (k s) | Raised e s \<Rightarrow> s)"
  by (cases r) simp_all

lemma flatten_position_guarded:
  "p \<in> flattening_ids s \<Longrightarrow>
     flatten_position s p =
       (case exec_engine s of
          None \<Rightarrow> Raised ValueError s
        | Some engine \<Rightarrow> Returned (write_log WARNING s))"
  by (simp add: flatten_position_def split: option.splits)

lemma flatten_position_inserts:
  "flattening_ids (final (flatten_position s q)) = flattening_ids s
   \<or> flattening_ids (final (flatten_position s q)) = insert q (flattening_ids s)"
  by (simp add: flatten_position_def market_def submit_order_def write_log_def
           split: option.splits)

lemma flatten_position_submits:
  "commands (final (flatten_position s q)) = commands s
   \<or> (\<exists>order. commands (final (flatten_position s q)) = commands s @ [SubmitOrder q order]
        \<and> q \<notin> flattening_ids s \<and> q \<in> flattening_ids (final (flatten_position s q)))"
  by (simp add: flatten_position_def market_def submit_order_def write_log_def commands_def
        execute_command_def split: option.splits)

lemma flatten_position_keeps:
  assumes "p \<in> flattening_ids s"
  shows "p \<in> flattening_ids (final (flatten_position s q))
       \<and> orders_for p (final (flatten_position s q)) = orders_for p s"
proof -
  have "p \<in> flattening_ids (final (flatten_position s q))"
    using flatten_position_inserts [of s q] assms by auto
  moreover have "orders_for p (final (flatten_position s q)) = orders_for p s"
    using flatten_position_submits [of s q] assms by (auto simp: orders_for_def)
  ultimately show ?thesis by simp
qed

lemma flatten_on_reject_order_keeps:
  assumes "p \<in> flattening_ids s"
  shows "p \<in> flattening_ids (final (flatten_on_reject_order s i))
       \<and> orders_for p (final (flatten_on_reject_order s i)) = orders_for p s"
proof -
  have w: "p \<in> flattening_ids (write_log WARNING s)" using assms by simp
  have o: "orders_for p (write_log WARNING s) = orders_for p s" by (simp add: orders_for_def)
  have e: "orders_for p (write_log ERROR s) = orders_for p s" by (simp add: orders_for_def)
  show ?thesis
    using flatten_position_keeps [OF w] assms o e
    by (simp add: flatten_on_reject_order_def split: option.splits)
qed

lemma handle_event_bookkeeping_keeps:
  assumes "p \<in> flattening_ids s" and "e \<noteq> PositionClosed p"
  shows "p \<in> flattening_ids (final (handle_event_bookkeeping s e))
       \<and> orders_for p (final (handle_event_bookkeeping s e)) = orders_for p s"
proof -
  have w: "p \<in> flattening_ids (write_log WARNING s)" using assms by simp
  have o: "orders_for p (write_log l s) = orders_for p s" for l by (simp add: orders_for_def)
  show ?thesis
  proof (cases e)
    case (OrderRejected i)
    with flatten_on_reject_order_keeps [OF w, of i] assms o show ?thesis by simp
  next
    case (PositionClosed q)
    with assms show ?thesis by (simp add: orders_for_def commands_def)
  qed (use assms o in simp_all)
qed

lemma after_bookkeeping_keeps:
  "flattening_ids
     (final (let s2 = discard_registered e s1
             in if fsm_state (fsm s2) = RUNNING then guarded_callback u (OnEvent e) s2
                else Returned s2)) = flattening_ids s1"
  "commands
     (final (let s2 = discard_registered e s1
             in if fsm_state (fsm s2) = RUNNING then guarded_callback u (OnEvent e) s2
                else Returned s2)) = commands s1"
  by (simp_all add: discard_registered_def guarded_callback_def invoke_def write_log_def
        commands_def Let_def split: option.splits)

lemma handle_event_keeps:
  assumes "p \<in> flattening_ids s" and "e \<noteq> PositionClosed p"
  shows "p \<in> flattening_ids (final (handle_event u s e))
       \<and> orders_for p (final (handle_event u s e)) = orders_for p s"
proof (cases "handle_event_bookkeeping s e")
  case (Returned s1)
  with handle_event_bookkeeping_keeps [OF assms]
  have "p \<in> flattening_ids s1" and "orders_for p s1 = orders_for p s" by simp_all
  with Returned after_bookkeeping_keeps [of e s1 u] show ?thesis
    by (simp add: handle_event_def orders_for_def)
next
  case (Raised x s1)
  with handle_event_bookkeeping_keeps [OF assms] show ?thesis
    by (simp add: handle_event_def)
qed

lemma database_changed_keeps:
  "flattening_ids (database_changed db s) = flattening_ids s"
  "commands (database_changed db s) = commands s"
  by (simp_all add: database_changed_def commands_def split: option.splits)

lemma perform_removes:
  assumes "p \<in> flattening_ids s" and "p \<notin> flattening_ids (perform u s a)"
  shows "a = HandleEvent (PositionClosed p) \<or> a = Reset"
proof (cases a)
  case (FlattenPosition q)
  with assms flatten_position_keeps [of p s q] show ?thesis by simp
next
  case FlattenAllPositions
  with assms flatten_all_positions_flattening [of s] show ?thesis by simp
next
  case (HandleEvent e)
  with assms handle_event_keeps [of p s e u] show ?thesis by auto
next
  case Reset
  then show ?thesis by simp
next
  case (Database db)
  with assms show ?thesis by (simp add: database_changed_keeps)
qed

lemma perform_keeps:
  assumes "p \<in> flattening_ids s"
    and "a \<noteq> HandleEvent (PositionClosed p)" "a \<noteq> Reset" "a \<noteq> FlattenAllPositions"
  shows "p \<in> flattening_ids (perform u s a) \<and> orders_for p (perform u s a) = orders_for p s"
proof (cases a)
  case (FlattenPosition q)
  with assms flatten_position_keeps [of p s q] show ?thesis by simp
next
  case (HandleEvent e)
  with assms handle_event_keeps [of p s e u] show ?thesis by auto
next
  case (Database db)
  with assms show ?thesis by (simp add: database_changed_keeps orders_for_def)
qed (use assms in simp_all)

lemma run_keeps:
  assumes "p \<in> flattening_ids s"
    and "\<forall>a \<in> set as. a \<noteq> HandleEvent (PositionClosed p) \<and> a \<noteq> Reset \<and> a \<noteq> FlattenAllPositions"
  shows "p \<in> flattening_ids (run u s as) \<and> orders_for p (run u s as) = orders_for p s"
  using assms
proof (induction as arbitrary: s)
  case Nil
  then show ?case by simp
next
  case (Cons a as)
  from Cons.prems have "p \<in> flattening_ids (perform u s a)"
    and "orders_for p (perform u s a) = orders_for p s"
    using perform_keeps [of p s a u] by simp_all
  with Cons.IH [of "perform u s a"] Cons.prems(2) show ?case by simp
qed


subsection \<open>Market data\<close>


lemma guarded_callback_rest:
  "(final (guarded_callback u cb s))\<lparr>trace := t, logged := l\<rparr> = s\<lparr>trace := t, logged := l\<rparr>"
  by (simp add: guarded_callback_def invoke_def write_log_def split: option.splits)

lemma handlers_frame:
  "(final (handle_quote_tick u s quote h))\<lparr>trace := t, logged := l\<rparr> = s\<lparr>trace := t, logged := l\<rparr>"
  "(final (handle_trade_tick u s trade h))\<lparr>trace := t, logged := l\<rparr> = s\<lparr>trace := t, logged := l\<rparr>"
  "(final (handle_bar u s bar_type bar h))\<lparr>trace := t, logged := l\<rparr> = s\<lparr>trace := t, logged := l\<rparr>"
  by (simp_all add: handle_quote_tick_def handle_trade_tick_def handle_bar_def guarded_callback_rest Let_def)



lemma descending_unsorted_ends:
  fixes ts :: "int list"
  assumes "sorted_wrt (\<lambda>a b. a \<ge> b) ts" and "\<not> sorted ts"
  shows "ts \<noteq> [] \<and> ts ! 0 > ts ! (length ts - 1)"
proof -
  from assms(2) have ne: "ts \<noteq> []" by auto
  have down: "ts ! i \<ge> ts ! j" if "i \<le> j" "j < length ts" for i j
  proof (cases "i = j")
    case True
    then show ?thesis by simp
  next
    case False
    with that have "i < j" by simp
    with assms(1) that show ?thesis by (simp add: sorted_wrt_iff_nth_less)
  qed
  have "ts ! 0 > ts ! (length ts - 1)"
  proof (rule ccontr)
    assume "\<not> ts ! 0 > ts ! (length ts - 1)"
    then have le: "ts ! 0 \<le> ts ! (length ts - 1)" by simp
    have "ts ! i \<le> ts ! j" if "i \<le> j" "j < length ts" for i j
    proof -
      have "ts ! i \<le> ts ! 0" using down [of 0 i] that by simp
      also note le
      also have "ts ! (length ts - 1) \<le> ts ! j" using down [of j "length ts - 1"] that by simp
      finally show ?thesis .
    qed
    then have "sorted ts" by (simp add: sorted_iff_nth_mono)
    with assms(2) show False by simp
  qed
  with ne show ?thesis by simp
qed

lemma handle_bars_loop_Returned:
  "\<exists>s'. handle_bars_loop u s bar_type bars = Returned s'"
  by (induction bars arbitrary: s) (simp_all add: handle_bar_def Let_def)

lemma handle_bars_raises_iff:
  "failed (handle_bars u s bar_type bars)
     \<longleftrightarrow> bars \<noteq> [] \<and> bar_timestamp (hd bars) > bar_timestamp (last bars)"
proof -
  obtain s' where "handle_bars_loop u (write_log INFO s) bar_type bars = Returned s'"
    using handle_bars_loop_Returned by blast
  then show ?thesis
    by (cases bars) (auto simp: handle_bars_def Let_def hd_conv_nth last_conv_nth)
qed

subsection \<open>Lifecycle\<close>

lemma flatten_all_positions_loop_frame:
  "(final (flatten_all_positions_loop s ps))\<lparr>order_count := n, exec_engine := e, logged := l\<rparr>
     = s\<lparr>order_count := n, exec_engine := e, logged := l\<rparr>"
proof (induction ps arbitrary: s)
  case Nil
  then show ?case by simp
next
  case (Cons a ps)
  obtain p pos where a: "a = (p, pos)" by (cases a)
  show ?case
  proof (cases "is_closed pos")
    case True
    with a Cons.IH [where s = "write_log WARNING s"] show ?thesis by (simp add: write_log_def)
  next
    case False
    show ?thesis
    proof (cases "exec_engine s")
      case None
      with a False show ?thesis
        by (simp add: market_def submit_order_def write_log_def)
    next
      case (Some engine)
      define s2 where "s2 = (write_log INFO (write_log INFO (s\<lparr>order_count := order_count s + 1\<rparr>)))
        \<lparr>exec_engine := Some (execute_command (SubmitOrder p
            \<lparr>cl_ord_id = order_count s + 1, ord_symbol = pos_symbol pos,
             ord_side = get_flatten_side (market_position pos),
             ord_quantity = pos_quantity pos\<rparr>) engine)\<rparr>"
      have "flatten_all_positions_loop s (a # ps) = flatten_all_positions_loop s2 ps"
        using a False Some by (simp add: market_def submit_order_def s2_def)
      with Cons.IH [where s = s2] show ?thesis by (simp add: s2_def write_log_def)
    qed
  qed
qed

lemma flatten_all_positions_frame:
  "(final (flatten_all_positions s))\<lparr>order_count := n, exec_engine := e, logged := l\<rparr>
     = s\<lparr>order_count := n, exec_engine := e, logged := l\<rparr>"
proof (cases "exec_engine s")
  case None
  then show ?thesis by (simp add: flatten_all_positions_def)
next
  case (Some engine)
  with flatten_all_positions_loop_frame [where s = "write_log INFO s" and ps = "db_positions_open engine" and n = n and e = e and l = l]
  show ?thesis by (simp add: flatten_all_positions_def write_log_def)
qed

lemma cancel_all_orders_loop_frame:
  "(final (cancel_all_orders_loop s os))\<lparr>exec_engine := e, logged := l\<rparr>
     = s\<lparr>exec_engine := e, logged := l\<rparr>"
proof (induction os arbitrary: s)
  case Nil
  then show ?case by simp
next
  case (Cons a os)
  obtain i order where a: "a = (i, order)" by (cases a)
  show ?case
  proof (cases "exec_engine s")
    case None
    with a show ?thesis by simp
  next
    case (Some engine)
    with a Cons.IH [where s = "(write_log INFO s)\<lparr>exec_engine := Some (execute_command (CancelOrder i) engine)\<rparr>"]
    show ?thesis by (simp add: write_log_def)
  qed
qed

lemma cancel_all_orders_frame:
  "(final (cancel_all_orders s))\<lparr>exec_engine := e, logged := l\<rparr>
     = s\<lparr>exec_engine := e, logged := l\<rparr>"
proof (cases "exec_engine s")
  case None
  then show ?thesis by (simp add: cancel_all_orders_def)
next
  case (Some engine)
  with cancel_all_orders_loop_frame [where s = "write_log INFO s" and os = "db_orders_working engine" and e = e and l = l]
  show ?thesis by (simp add: cancel_all_orders_def write_log_def)
qed

lemma flatten_all_positions_view:
  "fsm (final (flatten_all_positions s)) = fsm s"
  "trace (final (flatten_all_positions s)) = trace s"
  "flattening_ids (final (flatten_all_positions s)) = flattening_ids s"
proof -
  have "fsm ((final (flatten_all_positions s))\<lparr>order_count := 0, exec_engine := None, logged := []\<rparr>)
      = fsm (s\<lparr>order_count := 0, exec_engine := None, logged := []\<rparr>)"
    by (simp only: flatten_all_positions_frame)
  then show "fsm (final (flatten_all_positions s)) = fsm s" by simp
  have "trace ((final (flatten_all_positions s))\<lparr>order_count := 0, exec_engine := None, logged := []\<rparr>)
      = trace (s\<lparr>order_count := 0, exec_engine := None, logged := []\<rparr>)"
    by (simp only: flatten_all_positions_frame)
  then show "trace (final (flatten_all_positions s)) = trace s" by simp
  have "flattening_ids ((final (flatten_all_positions s))\<lparr>order_count := 0, exec_engine := None, logged := []\<rparr>)
      = flattening_ids (s\<lparr>order_count := 0, exec_engine := None, logged := []\<rparr>)"
    by (simp only: flatten_all_positions_frame)
  then show "flattening_ids (final (flatten_all_positions s)) = flattening_ids s" by simp
qed

lemma cancel_all_orders_view:
  "fsm (final (cancel_all_orders s)) = fsm s"
  "trace (final (cancel_all_orders s)) = trace s"
proof -
  have "fsm ((final (cancel_all_orders s))\<lparr>exec_engine := None, logged := []\<rparr>)
      = fsm (s\<lparr>exec_engine := None, logged := []\<rparr>)"
    by (simp only: cancel_all_orders_frame)
  then show "fsm (final (cancel_all_orders s)) = fsm s" by simp
  have "trace ((final (cancel_all_orders s))\<lparr>exec_engine := None, logged := []\<rparr>)
      = trace (s\<lparr>exec_engine := None, logged := []\<rparr>)"
    by (simp only: cancel_all_orders_frame)
  then show "trace (final (cancel_all_orders s)) = trace s" by simp
qed

lemma fold_write_log_view [simp]:
  "fsm (fold (\<lambda>name. write_log l) names s) = fsm s"
  "trace (fold (\<lambda>name. write_log l) names s) = trace s"
  by (induction names arbitrary: s) (simp_all add: write_log_def)

lemma swallowed_callback_view:
  "fsm (swallowed_callback u cb s) = fsm s"
  "trace (swallowed_callback u cb s) = trace s @ [Call cb]"
  by (simp_all add: swallowed_callback_def invoke_def write_log_def split: option.splits)

lemma stop_invalid:
  "fsm_table (fsm s) (fsm_state (fsm s), ''STOP'') = None \<Longrightarrow>
     stop u s = Returned (write_log EXCEPTION s)"
  by (simp add: stop_def trigger_def)

lemma stop_valid:
  assumes "fsm_table (fsm s) (fsm_state (fsm s), ''STOP'') = Some st"
  shows "fsm_table (fsm (final (stop u s))) = fsm_table (fsm s)
       \<and> (fsm_state (fsm (final (stop u s))) = st
          \<or> fsm_table (fsm s) (st, ''STOPPED'') = Some (fsm_state (fsm (final (stop u s)))))
       \<and> (trace (final (stop u s)) = trace s \<or> trace (final (stop u s)) = trace s @ [Call OnStop])"
proof -
  define s3 where "s3 = fold (\<lambda>name. write_log INFO) (timers (write_log INFO (s\<lparr>fsm := (fsm s)\<lparr>fsm_state := st\<rparr>\<rparr>)))
      ((write_log INFO (s\<lparr>fsm := (fsm s)\<lparr>fsm_state := st\<rparr>\<rparr>))\<lparr>timers := []\<rparr>)"
  have v3: "fsm s3 = (fsm s)\<lparr>fsm_state := st\<rparr>" "trace s3 = trace s"
    by (simp_all add: s3_def write_log_def)
  define r4 where "r4 = (if flatten_on_stop s3 then flatten_all_positions s3 else Returned s3)"
  have v4: "fsm (final r4) = (fsm s)\<lparr>fsm_state := st\<rparr>" "trace (final r4) = trace s"
    by (simp_all add: r4_def flatten_all_positions_view v3)
  define after where "after = (\<lambda>s5. let s6 = swallowed_callback u OnStop s5
                         in (case trigger (fsm s6) ''STOPPED'' of
                               None \<Rightarrow> Raised InvalidStateTrigger s6
                             | Some m2 \<Rightarrow> Returned (write_log INFO (s6\<lparr>fsm := m2\<rparr>))))"
  have stop_eq: "stop u s = and_then r4
      (\<lambda>s4. and_then (if cancel_all_orders_on_stop s4 then cancel_all_orders s4 else Returned s4) after)"
    using assms by (simp add: stop_def trigger_def s3_def r4_def after_def Let_def)
  have after_view: "fsm_table (fsm (final (after s5))) = fsm_table (fsm s)
       \<and> (fsm_state (fsm (final (after s5))) = st
          \<or> fsm_table (fsm s) (st, ''STOPPED'') = Some (fsm_state (fsm (final (after s5)))))
       \<and> trace (final (after s5)) = trace s @ [Call OnStop]"
    if "fsm s5 = (fsm s)\<lparr>fsm_state := st\<rparr>" "trace s5 = trace s" for s5
    using that
    by (auto simp: after_def Let_def swallowed_callback_view trigger_def write_log_def
             split: option.splits)
  show ?thesis
  proof (cases r4)
    case (Raised x s4)
    with v4 stop_eq show ?thesis by simp
  next
    case (Returned s4)
    with v4 have s4: "fsm s4 = (fsm s)\<lparr>fsm_state := st\<rparr>" "trace s4 = trace s" by simp_all
    define r5 where "r5 = (if cancel_all_orders_on_stop s4 then cancel_all_orders s4 else Returned s4)"
    have v5: "fsm (final r5) = (fsm s)\<lparr>fsm_state := st\<rparr>" "trace (final r5) = trace s"
      by (simp_all add: r5_def cancel_all_orders_view s4)
    have eq: "stop u s = and_then r5 after"
      using stop_eq Returned by (simp add: r5_def)
    show ?thesis
    proof (cases r5)
      case (Raised x s5)
      with v5 eq show ?thesis by simp
    next
      case (Returned s5)
      with v5 have "fsm s5 = (fsm s)\<lparr>fsm_state := st\<rparr>" "trace s5 = trace s" by simp_all
      from after_view [OF this] eq Returned show ?thesis by simp
    qed
  qed
qed

lemma stop_view:
  "fsm_table (fsm (final (stop u s))) = fsm_table (fsm s)
   \<and> (fsm_state (fsm (final (stop u s))) = fsm_state (fsm s)
         \<and> fsm_table (fsm s) (fsm_state (fsm s), ''STOP'') = None
      \<or> (\<exists>st0 t. t \<in> {''STOP'', ''STOPPED''}
            \<and> fsm_table (fsm s) (st0, t) = Some (fsm_state (fsm (final (stop u s))))))
   \<and> (trace (final (stop u s)) = trace s \<or> trace (final (stop u s)) = trace s @ [Call OnStop])"
proof (cases "fsm_table (fsm s) (fsm_state (fsm s), ''STOP'')")
  case None
  then show ?thesis by (simp add: stop_invalid write_log_def)
next
  case (Some st)
  from stop_valid [OF Some, of u] Some show ?thesis by auto
qed


lemma start_invalid:
  "fsm_table (fsm s) (fsm_state (fsm s), ''START'') = None \<Longrightarrow>
     start u s = stop u (write_log EXCEPTION s)"
  by (simp add: start_def trigger_def)

lemma start_unregistered:
  "fsm_table (fsm s) (fsm_state (fsm s), ''START'') = Some st \<Longrightarrow>
   data_engine s = None \<or> exec_engine s = None \<Longrightarrow>
     start u s = Returned (write_log ERROR (write_log INFO (s\<lparr>fsm := (fsm s)\<lparr>fsm_state := st\<rparr>\<rparr>)))"
  by (auto simp: start_def trigger_def Let_def write_log_def)

lemma start_on_start_raises:
  "fsm_table (fsm s) (fsm_state (fsm s), ''START'') = Some st \<Longrightarrow>
   data_engine s \<noteq> None \<Longrightarrow> exec_engine s \<noteq> None \<Longrightarrow>
   raises u OnStart (trace s) \<noteq> None \<Longrightarrow>
     start u s = stop u (write_log EXCEPTION
                   (invoke OnStart (write_log INFO (s\<lparr>fsm := (fsm s)\<lparr>fsm_state := st\<rparr>\<rparr>))))"
  by (auto simp: start_def trigger_def Let_def write_log_def)

lemma start_on_start_returns:
  "fsm_table (fsm s) (fsm_state (fsm s), ''START'') = Some st \<Longrightarrow>
   data_engine s \<noteq> None \<Longrightarrow> exec_engine s \<noteq> None \<Longrightarrow>
   raises u OnStart (trace s) = None \<Longrightarrow>
     start u s =
       (case fsm_table (fsm s) (st, ''RUNNING'') of
          None \<Rightarrow> Raised InvalidStateTrigger
                   (invoke OnStart (write_log INFO (s\<lparr>fsm := (fsm s)\<lparr>fsm_state := st\<rparr>\<rparr>)))
        | Some st' \<Rightarrow> Returned (write_log INFO
                   ((invoke OnStart (write_log INFO (s\<lparr>fsm := (fsm s)\<lparr>fsm_state := st\<rparr>\<rparr>)))
                      \<lparr>fsm := (fsm s)\<lparr>fsm_state := st'\<rparr>\<rparr>)))"
  by (auto simp: start_def trigger_def Let_def write_log_def invoke_def split: option.splits)

lemma start_view:
  "fsm_table (fsm (final (start u s))) = fsm_table (fsm s)
   \<and> (fsm_state (fsm (final (start u s))) = fsm_state (fsm s)
         \<and> fsm_table (fsm s) (fsm_state (fsm s), ''START'') = None
      \<or> (\<exists>st0 t. t \<in> {''START'', ''STOP'', ''STOPPED'', ''RUNNING''}
            \<and> fsm_table (fsm s) (st0, t) = Some (fsm_state (fsm (final (start u s))))))"
proof (cases "fsm_table (fsm s) (fsm_state (fsm s), ''START'')")
  case None
  from stop_view [of u "write_log EXCEPTION s"] None show ?thesis
    by (auto simp: start_invalid write_log_def)
next
  case (Some st)
  show ?thesis
  proof (cases "data_engine s = None \<or> exec_engine s = None")
    case True
    from start_unregistered [OF Some True] Some show ?thesis
      by (auto simp: write_log_def)
  next
    case False
    then have reg: "data_engine s \<noteq> None" "exec_engine s \<noteq> None" by simp_all
    show ?thesis
    proof (cases "raises u OnStart (trace s)")
      case None
      from start_on_start_returns [OF Some reg None] Some show ?thesis
        by (auto simp: write_log_def invoke_def split: option.splits)
    next
      case (Some ex)
      then have r: "raises u OnStart (trace s) \<noteq> None" by simp
      define s' where "s' = write_log EXCEPTION
            (invoke OnStart (write_log INFO (s\<lparr>fsm := (fsm s)\<lparr>fsm_state := st\<rparr>\<rparr>)))"
      have s': "fsm s' = (fsm s)\<lparr>fsm_state := st\<rparr>"
        by (simp add: s'_def write_log_def invoke_def)
      have eq: "start u s = stop u s'"
        using start_on_start_raises [OF \<open>fsm_table (fsm s) (fsm_state (fsm s), ''START'') = Some st\<close> reg r]
        by (simp add: s'_def)
      from stop_view [of u s'] \<open>fsm_table (fsm s) (fsm_state (fsm s), ''START'') = Some st\<close>
      show ?thesis unfolding eq s' by auto
    qed
  qed
qed

lemma stop_not_running:
  assumes "\<forall>st t. t \<in> {''STOP'', ''STOPPED''} \<longrightarrow> fsm_table (fsm s) (st, t) \<noteq> Some RUNNING"
    and "fsm_table (fsm s) (RUNNING, ''STOP'') \<noteq> None"
  shows "fsm_state (fsm (final (stop u s))) \<noteq> RUNNING"
  using stop_view [of u s] assms by auto

lemma start_twice:
  assumes "\<forall>st t st'. t \<in> {''START'', ''STOP'', ''STOPPED'', ''RUNNING''}
              \<and> fsm_table (fsm s) (st, t) = Some st' \<longrightarrow> fsm_table (fsm s) (st', ''START'') = None"
  shows "start u (final (start u s)) = stop u (write_log EXCEPTION (final (start u s)))
       \<and> count_list (trace (final (start u (final (start u s))))) (Call OnStart)
           = count_list (trace (final (start u s))) (Call OnStart)"
proof -
  define s1 where "s1 = final (start u s)"
  from start_view [of u s] assms
  have "fsm_table (fsm s1) (fsm_state (fsm s1), ''START'') = None"
    unfolding s1_def by auto
  then have eq: "start u s1 = stop u (write_log EXCEPTION s1)" by (rule start_invalid)
  from stop_view [of u "write_log EXCEPTION s1"]
  have "trace (final (stop u (write_log EXCEPTION s1))) = trace s1
      \<or> trace (final (stop u (write_log EXCEPTION s1))) = trace s1 @ [Call OnStop]"
    by (simp add: write_log_def)
  then have "count_list (trace (final (stop u (write_log EXCEPTION s1)))) (Call OnStart)
      = count_list (trace s1) (Call OnStart)"
    by auto
  with eq show ?thesis unfolding s1_def by simp
qed

lemma component_table_no_running:
  "\<forall>st t. t \<in> {''START'', ''STOP'', ''STOPPED''} \<longrightarrow> component_table (st, t) \<noteq> Some RUNNING"
proof (intro allI impI)
  fix st :: ComponentState and t :: string
  assume "t \<in> {''START'', ''STOP'', ''STOPPED''}"
  then show "component_table (st, t) \<noteq> Some RUNNING"
    by (cases st) (auto simp: component_table_def)
qed

lemma component_table_running_stops:
  "component_table (RUNNING, ''STOP'') \<noteq> None"
  by (simp add: component_table_def)

lemma component_table_start_once:
  "\<forall>st t st'. t \<in> {''START'', ''STOP'', ''STOPPED'', ''RUNNING''}
      \<and> component_table (st, t) = Some st' \<longrightarrow> component_table (st', ''START'') = None"
proof (intro allI impI)
  fix st st' :: ComponentState and t :: string
  assume "t \<in> {''START'', ''STOP'', ''STOPPED'', ''RUNNING''} \<and> component_table (st, t) = Some st'"
  then show "component_table (st', ''START'') = None"
    by (cases st) (auto simp: component_table_def)
qed

lemmas lifecycle_defs =
  start_def stop_def trigger_def component_table_def swallowed_callback_def invoke_def write_log_def
  flatten_all_positions_def cancel_all_orders_def

lemma unregistered0_view:
  "fsm unregistered0 = create_component_fsm" "trace unregistered0 = []"
  "data_engine unregistered0 = None" "exec_engine unregistered0 = None"
  by (simp_all add: unregistered0_def TradingStrategy_init_def)

lemma strategy0_view:
  "fsm strategy0 = create_component_fsm" "trace strategy0 = []"
  "data_engine strategy0 = Some DataEngine" "exec_engine strategy0 = Some engine0"
  by (simp_all add: strategy0_eval TradingStrategy_init_def)

lemma started0:
  "start plain_user strategy0 =
     Returned (strategy0\<lparr>fsm := create_component_fsm\<lparr>fsm_state := RUNNING\<rparr>,
                        trace := [Call OnStart], logged := [INFO, INFO]\<rparr>)"
  by (simp add: strategy0_eval lifecycle_defs example_defs)

subsection \<open>Methods that leave the flattening set alone\<close>

lemma stop_flattening:
  "flattening_ids (final (stop u s)) = flattening_ids s"
proof (cases "fsm_table (fsm s) (fsm_state (fsm s), ''STOP'')")
  case None
  then show ?thesis by (simp add: stop_invalid)
next
  case (Some st)
  define s3 where "s3 = fold (\<lambda>name. write_log INFO) (timers (write_log INFO (s\<lparr>fsm := (fsm s)\<lparr>fsm_state := st\<rparr>\<rparr>)))
      ((write_log INFO (s\<lparr>fsm := (fsm s)\<lparr>fsm_state := st\<rparr>\<rparr>))\<lparr>timers := []\<rparr>)"
  have fold_ids: "flattening_ids (fold (\<lambda>name. write_log l) names x) = flattening_ids x" for l names x
    by (induction names arbitrary: x) simp_all
  have v3: "flattening_ids s3 = flattening_ids s"
    by (simp add: s3_def fold_ids)
  define r4 where "r4 = (if flatten_on_stop s3 then flatten_all_positions s3 else Returned s3)"
  have v4: "flattening_ids (final r4) = flattening_ids s"
    by (simp add: r4_def flatten_all_positions_view v3)
  define after where "after = (\<lambda>s5. let s6 = swallowed_callback u OnStop s5
                         in (case trigger (fsm s6) ''STOPPED'' of
                               None \<Rightarrow> Raised InvalidStateTrigger s6
                             | Some m2 \<Rightarrow> Returned (write_log INFO (s6\<lparr>fsm := m2\<rparr>))))"
  have stop_eq: "stop u s = and_then r4
      (\<lambda>s4. and_then (if cancel_all_orders_on_stop s4 then cancel_all_orders s4 else Returned s4) after)"
    using Some by (simp add: stop_def trigger_def s3_def r4_def after_def Let_def)
  have after_ids: "flattening_ids (final (after s5)) = flattening_ids s5" for s5
    by (simp add: after_def Let_def swallowed_callback_def invoke_def write_log_def
          split: option.splits)
  have cancel_ids: "flattening_ids (final (cancel_all_orders x)) = flattening_ids x" for x
  proof -
    have "flattening_ids ((final (cancel_all_orders x))\<lparr>exec_engine := None, logged := []\<rparr>)
        = flattening_ids (x\<lparr>exec_engine := None, logged := []\<rparr>)"
      by (simp only: cancel_all_orders_frame)
    then show ?thesis by simp
  qed
  show ?thesis
  proof (cases r4)
    case (Raised x s4)
    with v4 stop_eq show ?thesis by simp
  next
    case (Returned s4)
    with v4 have s4: "flattening_ids s4 = flattening_ids s" by simp
    define r5 where "r5 = (if cancel_all_orders_on_stop s4 then cancel_all_orders s4 else Returned s4)"
    have v5: "flattening_ids (final r5) = flattening_ids s"
      by (simp add: r5_def cancel_ids s4)
    have eq: "stop u s = and_then r5 after"
      using stop_eq Returned by (simp add: r5_def)
    show ?thesis
    proof (cases r5)
      case (Raised x s5)
      with v5 eq show ?thesis by simp
    next
      case (Returned s5)
      with v5 eq after_ids [of s5] show ?thesis by simp
    qed
  qed
qed

lemma start_flattening:
  "flattening_ids (final (start u s)) = flattening_ids s"
  by (simp add: start_def Let_def stop_flattening invoke_def write_log_def trigger_def
        split: option.splits)

lemma resume_flattening:
  "flattening_ids (final (resume u s)) = flattening_ids s"
  by (simp add: resume_def Let_def stop_flattening invoke_def write_log_def trigger_def
        split: option.splits)

lemma dispose_flattening:
  "flattening_ids (final (dispose u s)) = flattening_ids s"
  by (simp add: dispose_def Let_def swallowed_callback_def invoke_def write_log_def trigger_def
        split: option.splits)

lemma handler_flattening:
  "flattening_ids (final (handle_quote_tick u s quote h)) = flattening_ids s"
  "flattening_ids (final (handle_trade_tick u s trade h)) = flattening_ids s"
  "flattening_ids (final (handle_bar u s bar_type bar h)) = flattening_ids s"
  by (simp_all add: handle_quote_tick_def handle_trade_tick_def handle_bar_def Let_def
        guarded_callback_def invoke_def write_log_def split: option.splits)

lemma handle_bars_flattening:
  "flattening_ids (final (handle_bars u s bar_type bars)) = flattening_ids s"
proof -
  have "flattening_ids (final (handle_bars_loop u x bar_type bars)) = flattening_ids x" for x
    by (induction bars arbitrary: x) (simp_all add: handle_bar_def Let_def)
  then show ?thesis by (simp add: handle_bars_def Let_def)
qed

lemma save_load_flattening:
  "flattening_ids (snd (save u s)) = flattening_ids s"
  "flattening_ids (final (load int_of_bytes u s state)) = flattening_ids s"
  by (auto simp: save_def load_def load_order_id_count_def load_position_id_count_def
        swallowed_callback_def invoke_def write_log_def Let_def
        split: option.splits sum.splits)

lemma command_flattening:
  "flattening_ids (final (submit_order s order q)) = flattening_ids s"
  "flattening_ids (final (cancel_order s order)) = flattening_ids s"
  "flattening_ids (final (cancel_all_orders s)) = flattening_ids s"
proof -
  show "flattening_ids (final (submit_order s order q)) = flattening_ids s"
    by (simp add: submit_order_def write_log_def split: option.splits)
  show "flattening_ids (final (cancel_order s order)) = flattening_ids s"
    by (simp add: cancel_order_def write_log_def split: option.splits)
  have "flattening_ids ((final (cancel_all_orders s))\<lparr>exec_engine := None, logged := []\<rparr>)
      = flattening_ids (s\<lparr>exec_engine := None, logged := []\<rparr>)"
    by (simp only: cancel_all_orders_frame)
  then show "flattening_ids (final (cancel_all_orders s)) = flattening_ids s" by simp
qed

subsection \<open>Saving and loading\<close>

lemma load_absent:
  assumes "fmdom state \<noteq> {||}"
    and "fmlookup state (Bytes ''OrderIdCount'') = None"
    and "fmlookup state (Bytes ''PositionIdCount'') = None"
  shows "load int_of_bytes u s state = Returned (swallowed_callback u (OnLoad state) s)"
  using assms by (simp add: load_def load_order_id_count_def load_position_id_count_def)

lemma load_present:
  assumes "fmlookup state (Bytes ''OrderIdCount'') = Some (BytesVal a)" "a \<noteq> []" "int_of_bytes a = Inr n"
    and "fmlookup state (Bytes ''PositionIdCount'') = Some (BytesVal b)" "b \<noteq> []" "int_of_bytes b = Inr m"
  shows "load int_of_bytes u s state =
     Returned (swallowed_callback u (OnLoad state)
       (write_log INFO ((write_log INFO (s\<lparr>order_count := n\<rparr>))\<lparr>position_count := m\<rparr>)))"
proof -
  from assms(1) have "fmdom state \<noteq> {||}" by (metis fmdom_notD fempty_iff option.distinct(1))
  with assms show ?thesis
    by (simp add: load_def load_order_id_count_def load_position_id_count_def write_log_def)
qed

lemma save_returns:
  assumes "raises u OnSave (trace s) = None"
  shows "save u s =
     (Inr (fmupd (Str ''PositionIdCount'') (IntVal (position_count s))
             (fmupd (Str ''OrderIdCount'') (IntVal (order_count s)) fmempty)
           ++\<^sub>f on_save u (trace s)),
      invoke OnSave s)"
  using assms by (simp add: save_def)

lemma ascii_int_examples:
  "ascii_int ''17'' = Inr 17" "ascii_int ''3'' = Inr 3"
  by (simp_all add: ascii_int_def is_digit_def)


lemma strategy0_counts:
  "order_count strategy0 = 0" "position_count strategy0 = 0" "trace strategy0 = []"
  by (simp_all add: strategy0_eval TradingStrategy_init_def)

lemma save_on_save_raises:
  "raises u OnSave (trace s) \<noteq> None \<Longrightarrow>
     save u s = (Inl UnboundLocalError, write_log EXCEPTION (invoke OnSave s))"
  by (auto simp: save_def)

section \<open>Main properties of the trading strategy\<close>



text \<open>
  C6, as the code has it. \<open>handle_bars\<close> compares the first timestamp with the last:
  a list that is not empty and whose first bar is later than its last is refused with
  RuntimeError right after the log record of its arrival, so that no bar reaches an
  indicator and no callback is made; every list whose timestamps run downwards (each no
  later than the one before, not all equal) is such a list; and no other list is
  refused.
\<close>

theorem handle_bars_rejects_descending:
  "(bars \<noteq> [] \<and> bar_timestamp (hd bars) > bar_timestamp (last bars) \<longrightarrow>
      handle_bars u s bar_type bars = Raised RuntimeError (write_log INFO s)
      \<and> trace (final (handle_bars u s bar_type bars)) = trace s)
   \<and> (sorted_wrt (\<lambda>a b. a \<ge> b) (map bar_timestamp bars) \<and> \<not> sorted (map bar_timestamp bars) \<longrightarrow>
        handle_bars u s bar_type bars = Raised RuntimeError (write_log INFO s)
        \<and> trace (final (handle_bars u s bar_type bars)) = trace s)
   \<and> (failed (handle_bars u s bar_type bars) \<longrightarrow>
        bars \<noteq> [] \<and> bar_timestamp (hd bars) > bar_timestamp (last bars))"
proof -
  have ends: "handle_bars u s bar_type bars = Raised RuntimeError (write_log INFO s)
      \<and> trace (final (handle_bars u s bar_type bars)) = trace s"
    if "bars \<noteq> []" and "bar_timestamp (hd bars) > bar_timestamp (last bars)"
    using that by (simp add: handle_bars_def Let_def write_log_def hd_conv_nth last_conv_nth)
  have down: "bars \<noteq> [] \<and> bar_timestamp (hd bars) > bar_timestamp (last bars)"
    if "sorted_wrt (\<lambda>a b. a \<ge> b) (map bar_timestamp bars)" and "\<not> sorted (map bar_timestamp bars)"
  proof -
    from descending_unsorted_ends [OF that]
    have "bars \<noteq> []"
      and "(map bar_timestamp bars) ! 0 > (map bar_timestamp bars) ! (length (map bar_timestamp bars) - 1)"
      by auto
    then show ?thesis by (simp add: nth_map hd_conv_nth last_conv_nth)
  qed
  have only: "failed (handle_bars u s bar_type bars) \<longrightarrow>
        bars \<noteq> [] \<and> bar_timestamp (hd bars) > bar_timestamp (last bars)"
    by (simp add: handle_bars_raises_iff)
  from ends down only show ?thesis by blast
qed

theorem handle_bars_rejects_descending_witness:
  "handle_bars plain_user charting0 ''AUD/USD-1-MIN''
       [\<lparr>bar_timestamp = 3, bar_close = 10\<rparr>, \<lparr>bar_timestamp = 2, bar_close = 11\<rparr>,
        \<lparr>bar_timestamp = 1, bar_close = 12\<rparr>]
     = Raised RuntimeError (write_log INFO charting0)
   \<and> trace (final (handle_bars plain_user charting0 ''AUD/USD-1-MIN''
       [\<lparr>bar_timestamp = 3, bar_close = 10\<rparr>, \<lparr>bar_timestamp = 2, bar_close = 11\<rparr>,
        \<lparr>bar_timestamp = 1, bar_close = 12\<rparr>])) = trace charting0
   \<and> handle_bars plain_user charting0 ''AUD/USD-1-MIN''
       [\<lparr>bar_timestamp = 3, bar_close = 10\<rparr>, \<lparr>bar_timestamp = 5, bar_close = 11\<rparr>,
        \<lparr>bar_timestamp = 1, bar_close = 12\<rparr>]
     = Raised RuntimeError (write_log INFO charting0)"
proof -
  let ?down = "[\<lparr>bar_timestamp = 3, bar_close = 10\<rparr>, \<lparr>bar_timestamp = 2, bar_close = 11\<rparr>,
                \<lparr>bar_timestamp = 1, bar_close = 12\<rparr>]"
  let ?ends = "[\<lparr>bar_timestamp = 3, bar_close = 10\<rparr>, \<lparr>bar_timestamp = 5, bar_close = 11\<rparr>,
                \<lparr>bar_timestamp = 1, bar_close = 12\<rparr>]"
  have "sorted_wrt (\<lambda>a b. a \<ge> b) (map bar_timestamp ?down) \<and> \<not> sorted (map bar_timestamp ?down)"
    by simp
  with handle_bars_rejects_descending [of ?down plain_user charting0 "''AUD/USD-1-MIN''"]
  have 1: "handle_bars plain_user charting0 ''AUD/USD-1-MIN'' ?down = Raised RuntimeError (write_log INFO charting0)
      \<and> trace (final (handle_bars plain_user charting0 ''AUD/USD-1-MIN'' ?down)) = trace charting0"
    by blast
  have "?ends \<noteq> [] \<and> bar_timestamp (hd ?ends) > bar_timestamp (last ?ends)"
    by simp
  with handle_bars_rejects_descending [of ?ends plain_user charting0 "''AUD/USD-1-MIN''"]
  have 2: "handle_bars plain_user charting0 ''AUD/USD-1-MIN'' ?ends = Raised RuntimeError (write_log INFO charting0)"
    by blast
  from 1 2 show ?thesis by blast
qed

text \<open>
  C6 as stated fails on a list that is out of order between its ends: the bars with
  timestamps 1, 3, 2 are not in ascending order, yet \<open>handle_bars\<close> raises nothing and
  delivers all three to the registered indicator.
\<close>

theorem handle_bars_rejects_descending_counterexample:
  "\<not> sorted (map bar_timestamp
       [\<lparr>bar_timestamp = 1, bar_close = 10\<rparr>, \<lparr>bar_timestamp = 3, bar_close = 11\<rparr>,
        \<lparr>bar_timestamp = 2, bar_close = 12\<rparr>])
   \<and> handle_bars plain_user charting0 ''AUD/USD-1-MIN''
       [\<lparr>bar_timestamp = 1, bar_close = 10\<rparr>, \<lparr>bar_timestamp = 3, bar_close = 11\<rparr>,
        \<lparr>bar_timestamp = 2, bar_close = 12\<rparr>]
     = Returned (charting0
         \<lparr>trace := [IndBar ''ema10'' \<lparr>bar_timestamp = 1, bar_close = 10\<rparr>,
                    IndBar ''ema10'' \<lparr>bar_timestamp = 3, bar_close = 11\<rparr>,
                    IndBar ''ema10'' \<lparr>bar_timestamp = 2, bar_close = 12\<rparr>],
          logged := [INFO]\<rparr>)"
  by (simp add: handle_bars_def handle_bar_def registered_for_def charting0_def
        register_indicator_for_bars_def add_indicator_def register_in_def registered_in_def
        strategy0_eval TradingStrategy_init_def write_log_def Let_def)

text \<open>
  C10. \<open>flatten_all_positions\<close> never changes the set of positions being flattened,
  whatever it does otherwise. With an execution engine registered and every open,
  not closed position long or short, it returns having given the engine exactly the
  expected orders, one for each open position that is not closed, in order; whether a
  position is in the flattening set plays no part.
\<close>

theorem flatten_all_positions_unguarded:
  "flattening_ids (final (flatten_all_positions s)) = flattening_ids s
   \<and> (\<forall>engine. exec_engine s = Some engine
         \<and> (\<forall>(p, pos) \<in> set (db_positions_open engine).
               \<not> is_closed pos \<longrightarrow> market_position pos \<in> {LONG, SHORT})
       \<longrightarrow> \<not> failed (flatten_all_positions s)
         \<and> commands (final (flatten_all_positions s))
             = commands s @ flatten_orders (order_count s) (db_positions_open engine)
         \<and> map position_of (flatten_orders (order_count s) (db_positions_open engine))
             = map (Some \<circ> fst) (filter (\<lambda>(p, pos). \<not> is_closed pos) (db_positions_open engine)))"
proof -
  have frame: "flattening_ids (final (flatten_all_positions s)) = flattening_ids s"
    by (rule flatten_all_positions_flattening)
  have orders: "\<not> failed (flatten_all_positions s)
         \<and> commands (final (flatten_all_positions s))
             = commands s @ flatten_orders (order_count s) (db_positions_open engine)"
    if eng: "exec_engine s = Some engine"
      and sides: "\<forall>(p, pos) \<in> set (db_positions_open engine).
               \<not> is_closed pos \<longrightarrow> market_position pos \<in> {LONG, SHORT}"
    for engine
  proof (cases "db_positions_open engine = []")
    case True
    with eng show ?thesis by (simp add: flatten_all_positions_def)
  next
    case False
    have "exec_engine (write_log INFO s) \<noteq> None" using eng by simp
    from flatten_all_positions_loop_orders [OF this sides]
    obtain s' where "flatten_all_positions_loop (write_log INFO s) (db_positions_open engine) = Returned s'"
      and "commands s' = commands s @ flatten_orders (order_count s) (db_positions_open engine)"
      by auto
    with eng False show ?thesis by (simp add: flatten_all_positions_def)
  qed
  from frame orders flatten_orders_positions show ?thesis by blast
qed

theorem flatten_all_positions_unguarded_witness:
  "''P-1'' \<in> flattening_ids flattening0
   \<and> commands (final (flatten_all_positions flattening0))
       = [SubmitOrder ''P-1'' (sell_order 1), SubmitOrder ''P-1'' (sell_order 2)]
   \<and> flattening_ids (final (flatten_all_positions flattening0)) = {''P-1''}"
proof -
  define engine where "engine = engine0\<lparr>executed := [SubmitOrder ''P-1'' (sell_order 1)]\<rparr>"
  have eng: "exec_engine flattening0 = Some engine"
    by (simp add: flattening0_eval engine_def)
  have sides: "\<forall>(p, pos) \<in> set (db_positions_open engine).
      \<not> is_closed pos \<longrightarrow> market_position pos \<in> {LONG, SHORT}"
    by (simp add: engine_def engine0_def long_position_def)
  have ids: "flattening_ids flattening0 = {''P-1''}" and cnt: "order_count flattening0 = 1"
    and cmds: "commands flattening0 = [SubmitOrder ''P-1'' (sell_order 1)]"
    by (simp_all add: flattening0_eval commands_def)
  from flatten_all_positions_unguarded [of flattening0] eng sides
  have "flattening_ids (final (flatten_all_positions flattening0)) = flattening_ids flattening0"
    and "commands (final (flatten_all_positions flattening0))
           = commands flattening0 @ flatten_orders (order_count flattening0) (db_positions_open engine)"
    by blast+
  then show ?thesis
    by (simp add: ids cnt cmds engine_def engine0_def long_position_def sell_order_def)
qed

text \<open>
  C4, as the code has it. (1) \<open>flatten_position\<close> of a position already in the flattening
  set changes nothing but the log (a warning when an engine is registered, the
  ValueError of the engine check otherwise) and submits nothing. (2) A call that
  submits an order puts the position into the set. (3) A position leaves the set only
  by a PositionClosed event for it or by \<open>reset\<close>. (4) From a state with the position in
  the set, through any run of \<open>flatten_position\<close> calls, events other than that
  position's PositionClosed, and changes of the database, the position stays in the
  set and no further order is submitted for it. (5) The other methods (\<open>start\<close>,
  \<open>stop\<close>, \<open>resume\<close>, \<open>dispose\<close>, \<open>flatten_all_positions\<close>, the order commands, the
  market data handlers, \<open>save\<close> and \<open>load\<close>) leave the set as it is.
\<close>

theorem flatten_position_guard:
  "(p \<in> flattening_ids s \<longrightarrow>
      flatten_position s p =
        (case exec_engine s of
           None \<Rightarrow> Raised ValueError s
         | Some engine \<Rightarrow> Returned (write_log WARNING s)))
   \<and> (commands (final (flatten_position s p)) \<noteq> commands s \<longrightarrow>
        p \<notin> flattening_ids s \<and> p \<in> flattening_ids (final (flatten_position s p)))
   \<and> (p \<in> flattening_ids s \<and> p \<notin> flattening_ids (perform u s a) \<longrightarrow>
        a = HandleEvent (PositionClosed p) \<or> a = Reset)
   \<and> (p \<in> flattening_ids s
        \<and> (\<forall>a \<in> set as. a \<noteq> HandleEvent (PositionClosed p) \<and> a \<noteq> Reset \<and> a \<noteq> FlattenAllPositions)
      \<longrightarrow> p \<in> flattening_ids (run u s as) \<and> orders_for p (run u s as) = orders_for p s)
   \<and> (flattening_ids (final (start u s)) = flattening_ids s
      \<and> flattening_ids (final (stop u s)) = flattening_ids s
      \<and> flattening_ids (final (resume u s)) = flattening_ids s
      \<and> flattening_ids (final (dispose u s)) = flattening_ids s
      \<and> flattening_ids (final (flatten_all_positions s)) = flattening_ids s
      \<and> flattening_ids (final (cancel_all_orders s)) = flattening_ids s
      \<and> flattening_ids (final (submit_order s order q)) = flattening_ids s
      \<and> flattening_ids (final (cancel_order s order)) = flattening_ids s
      \<and> flattening_ids (final (handle_quote_tick u s quote historical)) = flattening_ids s
      \<and> flattening_ids (final (handle_trade_tick u s trade historical)) = flattening_ids s
      \<and> flattening_ids (final (handle_bar u s bar_type bar historical)) = flattening_ids s
      \<and> flattening_ids (final (handle_bars u s bar_type bars)) = flattening_ids s
      \<and> flattening_ids (snd (save u s)) = flattening_ids s
      \<and> flattening_ids (final (load int_of_bytes u s state)) = flattening_ids s)"
proof -
  have 1: "p \<in> flattening_ids s \<longrightarrow>
      flatten_position s p =
        (case exec_engine s of
           None \<Rightarrow> Raised ValueError s
         | Some engine \<Rightarrow> Returned (write_log WARNING s))"
    by (simp add: flatten_position_guarded)
  have 2: "commands (final (flatten_position s p)) \<noteq> commands s \<longrightarrow>
        p \<notin> flattening_ids s \<and> p \<in> flattening_ids (final (flatten_position s p))"
    using flatten_position_submits [of s p] by auto
  have 3: "p \<in> flattening_ids s \<and> p \<notin> flattening_ids (perform u s a) \<longrightarrow>
        a = HandleEvent (PositionClosed p) \<or> a = Reset"
    using perform_removes [of p s u a] by blast
  have 4: "p \<in> flattening_ids s
        \<and> (\<forall>a \<in> set as. a \<noteq> HandleEvent (PositionClosed p) \<and> a \<noteq> Reset \<and> a \<noteq> FlattenAllPositions)
      \<longrightarrow> p \<in> flattening_ids (run u s as) \<and> orders_for p (run u s as) = orders_for p s"
    using run_keeps [of p s as u] by blast
  have 5: "flattening_ids (final (start u s)) = flattening_ids s
      \<and> flattening_ids (final (stop u s)) = flattening_ids s
      \<and> flattening_ids (final (resume u s)) = flattening_ids s
      \<and> flattening_ids (final (dispose u s)) = flattening_ids s
      \<and> flattening_ids (final (flatten_all_positions s)) = flattening_ids s
      \<and> flattening_ids (final (cancel_all_orders s)) = flattening_ids s
      \<and> flattening_ids (final (submit_order s order q)) = flattening_ids s
      \<and> flattening_ids (final (cancel_order s order)) = flattening_ids s
      \<and> flattening_ids (final (handle_quote_tick u s quote historical)) = flattening_ids s
      \<and> flattening_ids (final (handle_trade_tick u s trade historical)) = flattening_ids s
      \<and> flattening_ids (final (handle_bar u s bar_type bar historical)) = flattening_ids s
      \<and> flattening_ids (final (handle_bars u s bar_type bars)) = flattening_ids s
      \<and> flattening_ids (snd (save u s)) = flattening_ids s
      \<and> flattening_ids (final (load int_of_bytes u s state)) = flattening_ids s"
    by (simp add: start_flattening stop_flattening resume_flattening dispose_flattening
          flatten_all_positions_flattening command_flattening handler_flattening
          handle_bars_flattening save_load_flattening)
  from 1 2 3 4 5 show ?thesis by blast
qed

theorem flatten_position_guard_witness:
  "''P-1'' \<in> flattening_ids rejected0
   \<and> orders_for ''P-1'' rejected0 = [SubmitOrder ''P-1'' (sell_order 1)]
   \<and> flatten_position rejected0 ''P-1'' = Returned (write_log WARNING rejected0)
   \<and> orders_for ''P-1''
        (run plain_user rejected0
           [HandleEvent (OrderRejected 78), FlattenPosition ''P-1'', Database engine0,
            HandleEvent (PositionClosed ''P-2''), FlattenPosition ''P-1''])
       = [SubmitOrder ''P-1'' (sell_order 1)]
   \<and> ''P-1'' \<notin> flattening_ids strategy0
   \<and> ''P-1'' \<in> flattening_ids (final (flatten_position strategy0 ''P-1''))
   \<and> ''P-1'' \<notin> flattening_ids (perform plain_user rejected0 (HandleEvent (PositionClosed ''P-1'')))"
proof -
  have inflight: "''P-1'' \<in> flattening_ids rejected0"
    and one: "orders_for ''P-1'' rejected0 = [SubmitOrder ''P-1'' (sell_order 1)]"
    and eng: "exec_engine rejected0 = Some (engine0\<lparr>executed := [SubmitOrder ''P-1'' (sell_order 1)]\<rparr>)"
    by (simp_all add: rejected0_eval orders_for_def commands_def)
  have allowed: "\<forall>a \<in> set [HandleEvent (OrderRejected 78), FlattenPosition ''P-1'', Database engine0,
            HandleEvent (PositionClosed ''P-2''), FlattenPosition ''P-1''].
      a \<noteq> HandleEvent (PositionClosed ''P-1'') \<and> a \<noteq> Reset \<and> a \<noteq> FlattenAllPositions"
    by simp
  note guard = flatten_position_guard [where p = "''P-1''" and s = rejected0 and u = plain_user
      and as = "[HandleEvent (OrderRejected 78), FlattenPosition ''P-1'', Database engine0,
        HandleEvent (PositionClosed ''P-2''), FlattenPosition ''P-1'']"]
  from guard inflight have "flatten_position rejected0 ''P-1'' =
      (case exec_engine rejected0 of
         None \<Rightarrow> Raised ValueError rejected0
       | Some engine \<Rightarrow> Returned (write_log WARNING rejected0))"
    by blast
  then have warned: "flatten_position rejected0 ''P-1'' = Returned (write_log WARNING rejected0)"
    by (simp add: eng)
  from guard inflight allowed
  have kept: "orders_for ''P-1''
        (run plain_user rejected0
           [HandleEvent (OrderRejected 78), FlattenPosition ''P-1'', Database engine0,
            HandleEvent (PositionClosed ''P-2''), FlattenPosition ''P-1''])
       = orders_for ''P-1'' rejected0"
    by blast
  have "commands flattening0 = [SubmitOrder ''P-1'' (sell_order 1)]" and "commands strategy0 = []"
    by (simp_all add: flattening0_eval(2) commands_def strategy0_view engine0_def)
  then have "commands (final (flatten_position strategy0 ''P-1'')) \<noteq> commands strategy0"
    by (simp add: flattening0_eval(1))
  with flatten_position_guard [where p = "''P-1''" and s = strategy0]
  have first: "''P-1'' \<notin> flattening_ids strategy0
      \<and> ''P-1'' \<in> flattening_ids (final (flatten_position strategy0 ''P-1''))"
    by blast
  have closed: "''P-1'' \<notin> flattening_ids (perform plain_user rejected0 (HandleEvent (PositionClosed ''P-1'')))"
    by (simp add: handle_event_def discard_registered_def guarded_callback_def invoke_def
          write_log_def split: option.splits)
  from inflight one warned kept first closed show ?thesis by simp
qed

text \<open>
  C4 as stated fails on \<open>reset\<close>: a position put in flight by \<open>flatten_position\<close> is out
  of the flattening set after a \<open>reset\<close>, with no PositionClosed event handled, and the
  next \<open>flatten_position\<close> submits a second order for it.
\<close>

theorem flatten_position_guard_counterexample:
  "''P-1'' \<in> flattening_ids (run plain_user strategy0 [FlattenPosition ''P-1''])
   \<and> ''P-1'' \<notin> flattening_ids (run plain_user strategy0 [FlattenPosition ''P-1'', Reset])
   \<and> orders_for ''P-1'' (run plain_user strategy0 [FlattenPosition ''P-1'', Reset, FlattenPosition ''P-1''])
       = [SubmitOrder ''P-1'' (sell_order 1), SubmitOrder ''P-1'' (sell_order 1)]"
proof -
  define cleared where "cleared = strategy0
     \<lparr>exec_engine := Some (engine0\<lparr>executed := [SubmitOrder ''P-1'' (sell_order 1)]\<rparr>),
      trace := [Call OnReset],
      logged := [INFO, INFO, INFO, INFO]\<rparr>"
  have 1: "final (flatten_position strategy0 ''P-1'') = flattening0"
    by (simp add: flattening0_def)
  have 2: "final (reset plain_user flattening0) = cleared"
    by (simp add: reset_flattening0 cleared_def)
  have a: "''P-1'' \<in> flattening_ids flattening0"
    by (simp add: flattening0_eval)
  have b: "''P-1'' \<notin> flattening_ids cleared"
    by (simp add: cleared_def strategy0_eval TradingStrategy_init_def)
  have c: "orders_for ''P-1'' (final (flatten_position cleared ''P-1''))
     = [SubmitOrder ''P-1'' (sell_order 1), SubmitOrder ''P-1'' (sell_order 1)]"
    by (simp add: cleared_def strategy0_eval strategy_defs example_defs orders_for_def commands_def)
  from a b c show ?thesis by (simp add: 1 2)
qed

text \<open>
  C3, as the code has it, for every transition table. (1) When the START trigger is
  invalid, \<open>start\<close> is \<open>stop\<close> on the strategy with the exception logged. (2) When START
  is valid, both engines are registered and \<open>on_start\<close> raises, \<open>start\<close> is \<open>stop\<close> on the
  strategy after the call, with the exception logged. (3) When START is valid and an
  engine is missing, \<open>start\<close> logs an error and returns: the strategy stays in the state
  START led to, \<open>on_start\<close> is not called and \<open>stop\<close> is not entered. (4) If no START,
  STOP or STOPPED transition of the table leads to RUNNING and RUNNING can be stopped, then in
  all three cases the strategy is not in RUNNING afterwards. (5) If START is invalid in
  every state that a START, STOP, STOPPED or RUNNING transition leads to, a second
  \<open>start\<close> right after a first is \<open>stop\<close> again and \<open>on_start\<close> is called no further time.
\<close>

theorem start_falls_back:
  "(fsm_table (fsm s) (fsm_state (fsm s), ''START'') = None \<longrightarrow>
      start u s = stop u (write_log EXCEPTION s))
   \<and> (\<forall>st. fsm_table (fsm s) (fsm_state (fsm s), ''START'') = Some st
          \<and> data_engine s \<noteq> None \<and> exec_engine s \<noteq> None \<and> raises u OnStart (trace s) \<noteq> None \<longrightarrow>
        start u s = stop u (write_log EXCEPTION
                      (invoke OnStart (write_log INFO (s\<lparr>fsm := (fsm s)\<lparr>fsm_state := st\<rparr>\<rparr>)))))
   \<and> (\<forall>st. fsm_table (fsm s) (fsm_state (fsm s), ''START'') = Some st
          \<and> (data_engine s = None \<or> exec_engine s = None) \<longrightarrow>
        start u s = Returned (write_log ERROR (write_log INFO (s\<lparr>fsm := (fsm s)\<lparr>fsm_state := st\<rparr>\<rparr>))))
   \<and> ((\<forall>st t. t \<in> {''START'', ''STOP'', ''STOPPED''} \<longrightarrow> fsm_table (fsm s) (st, t) \<noteq> Some RUNNING)
        \<and> fsm_table (fsm s) (RUNNING, ''STOP'') \<noteq> None
        \<and> (fsm_table (fsm s) (fsm_state (fsm s), ''START'') = None
            \<or> data_engine s = None \<or> exec_engine s = None \<or> raises u OnStart (trace s) \<noteq> None) \<longrightarrow>
        fsm_state (fsm (final (start u s))) \<noteq> RUNNING)
   \<and> ((\<forall>st t st'. t \<in> {''START'', ''STOP'', ''STOPPED'', ''RUNNING''}
              \<and> fsm_table (fsm s) (st, t) = Some st' \<longrightarrow> fsm_table (fsm s) (st', ''START'') = None) \<longrightarrow>
        start u (final (start u s)) = stop u (write_log EXCEPTION (final (start u s)))
        \<and> count_list (trace (final (start u (final (start u s))))) (Call OnStart)
            = count_list (trace (final (start u s))) (Call OnStart))"
proof -
  have a: "fsm_table (fsm s) (fsm_state (fsm s), ''START'') = None \<longrightarrow>
      start u s = stop u (write_log EXCEPTION s)"
    by (simp add: start_invalid)
  have b: "\<forall>st. fsm_table (fsm s) (fsm_state (fsm s), ''START'') = Some st
          \<and> data_engine s \<noteq> None \<and> exec_engine s \<noteq> None \<and> raises u OnStart (trace s) \<noteq> None \<longrightarrow>
        start u s = stop u (write_log EXCEPTION
                      (invoke OnStart (write_log INFO (s\<lparr>fsm := (fsm s)\<lparr>fsm_state := st\<rparr>\<rparr>))))"
    using start_on_start_raises [of s _ u] by blast
  have c: "\<forall>st. fsm_table (fsm s) (fsm_state (fsm s), ''START'') = Some st
          \<and> (data_engine s = None \<or> exec_engine s = None) \<longrightarrow>
        start u s = Returned (write_log ERROR (write_log INFO (s\<lparr>fsm := (fsm s)\<lparr>fsm_state := st\<rparr>\<rparr>)))"
    using start_unregistered [of s _ u] by blast
  have d: "fsm_state (fsm (final (start u s))) \<noteq> RUNNING"
    if t1: "\<forall>st t. t \<in> {''START'', ''STOP'', ''STOPPED''} \<longrightarrow> fsm_table (fsm s) (st, t) \<noteq> Some RUNNING"
      and t2: "fsm_table (fsm s) (RUNNING, ''STOP'') \<noteq> None"
      and f: "fsm_table (fsm s) (fsm_state (fsm s), ''START'') = None
            \<or> data_engine s = None \<or> exec_engine s = None \<or> raises u OnStart (trace s) \<noteq> None"
  proof (cases "fsm_table (fsm s) (fsm_state (fsm s), ''START'')")
    case None
    have "fsm_state (fsm (final (stop u (write_log EXCEPTION s)))) \<noteq> RUNNING"
      by (rule stop_not_running) (use t1 t2 in \<open>simp_all add: write_log_def\<close>)
    with None show ?thesis by (simp add: start_invalid)
  next
    case (Some st)
    from t1 Some have st: "st \<noteq> RUNNING" by auto
    show ?thesis
    proof (cases "data_engine s = None \<or> exec_engine s = None")
      case True
      from start_unregistered [OF Some True] st show ?thesis by (simp add: write_log_def)
    next
      case False
      with f Some have r: "raises u OnStart (trace s) \<noteq> None" by auto
      from False have reg: "data_engine s \<noteq> None" "exec_engine s \<noteq> None" by simp_all
      have "fsm_state (fsm (final (stop u (write_log EXCEPTION
                      (invoke OnStart (write_log INFO (s\<lparr>fsm := (fsm s)\<lparr>fsm_state := st\<rparr>\<rparr>))))))) \<noteq> RUNNING"
        by (rule stop_not_running) (use t1 t2 in \<open>simp_all add: write_log_def invoke_def\<close>)
      with start_on_start_raises [OF Some reg r] show ?thesis by simp
    qed
  qed
  note e = start_twice [of s u]
  from a b c d e show ?thesis by blast
qed

theorem start_falls_back_witness:
  "start plain_user unregistered0
     = Returned (write_log ERROR (write_log INFO
         (unregistered0\<lparr>fsm := create_component_fsm\<lparr>fsm_state := STARTING\<rparr>\<rparr>)))
   \<and> start failing_user strategy0
     = stop failing_user (write_log EXCEPTION (invoke OnStart (write_log INFO
         (strategy0\<lparr>fsm := create_component_fsm\<lparr>fsm_state := STARTING\<rparr>\<rparr>))))
   \<and> fsm_state (fsm (final (start failing_user strategy0))) \<noteq> RUNNING
   \<and> trace (final (start plain_user strategy0)) = [Call OnStart]
   \<and> start plain_user (final (start plain_user strategy0))
     = stop plain_user (write_log EXCEPTION (final (start plain_user strategy0)))
   \<and> count_list (trace (final (start plain_user (final (start plain_user strategy0))))) (Call OnStart) = 1"
proof -
  have go0: "fsm_table (fsm unregistered0) (fsm_state (fsm unregistered0), ''START'') = Some STARTING"
    and go1: "fsm_table (fsm strategy0) (fsm_state (fsm strategy0), ''START'') = Some STARTING"
    and t1: "fsm_table (fsm strategy0) = component_table"
    by (simp_all add: unregistered0_view strategy0_view create_component_fsm_def component_table_def)
  have none: "data_engine unregistered0 = None \<or> exec_engine unregistered0 = None"
    by (simp add: unregistered0_view)
  from start_falls_back [of unregistered0 plain_user] go0 none
  have "start plain_user unregistered0
     = Returned (write_log ERROR (write_log INFO
         (unregistered0\<lparr>fsm := (fsm unregistered0)\<lparr>fsm_state := STARTING\<rparr>\<rparr>)))"
    by blast
  then have 1: "start plain_user unregistered0
     = Returned (write_log ERROR (write_log INFO
         (unregistered0\<lparr>fsm := create_component_fsm\<lparr>fsm_state := STARTING\<rparr>\<rparr>)))"
    by (simp add: unregistered0_view)
  have never: "\<forall>st t. t \<in> {''START'', ''STOP'', ''STOPPED''} \<longrightarrow> fsm_table (fsm strategy0) (st, t) \<noteq> Some RUNNING"
    and stops: "fsm_table (fsm strategy0) (RUNNING, ''STOP'') \<noteq> None"
    and once: "\<forall>st t st'. t \<in> {''START'', ''STOP'', ''STOPPED'', ''RUNNING''}
              \<and> fsm_table (fsm strategy0) (st, t) = Some st' \<longrightarrow> fsm_table (fsm strategy0) (st', ''START'') = None"
    unfolding t1
    by (rule component_table_no_running component_table_running_stops component_table_start_once)+
  have bad: "raises failing_user OnStart (trace strategy0) \<noteq> None"
    by (simp add: failing_user_def)
  have reg: "data_engine strategy0 \<noteq> None" "exec_engine strategy0 \<noteq> None"
    by (simp_all add: strategy0_view)
  from start_falls_back [of strategy0 failing_user] go1 reg bad
  have "start failing_user strategy0
     = stop failing_user (write_log EXCEPTION (invoke OnStart (write_log INFO
         (strategy0\<lparr>fsm := (fsm strategy0)\<lparr>fsm_state := STARTING\<rparr>\<rparr>))))"
    by blast
  then have 2: "start failing_user strategy0
     = stop failing_user (write_log EXCEPTION (invoke OnStart (write_log INFO
         (strategy0\<lparr>fsm := create_component_fsm\<lparr>fsm_state := STARTING\<rparr>\<rparr>))))"
    by (simp add: strategy0_view)
  from start_falls_back [of strategy0 failing_user] never stops bad
  have 3: "fsm_state (fsm (final (start failing_user strategy0))) \<noteq> RUNNING"
    by blast
  have 4: "trace (final (start plain_user strategy0)) = [Call OnStart]"
    by (simp add: started0)
  from start_falls_back [of strategy0 plain_user] once
  have 5: "start plain_user (final (start plain_user strategy0))
     = stop plain_user (write_log EXCEPTION (final (start plain_user strategy0)))"
    and "count_list (trace (final (start plain_user (final (start plain_user strategy0))))) (Call OnStart)
      = count_list (trace (final (start plain_user strategy0))) (Call OnStart)"
    by blast+
  then have 6: "count_list (trace (final (start plain_user (final (start plain_user strategy0))))) (Call OnStart) = 1"
    by (simp add: 4)
  from 1 2 3 4 5 6 show ?thesis by blast
qed

text \<open>
  C3 as stated fails where an engine is missing: \<open>start\<close> on a strategy without engines
  returns with the machine in STARTING and nothing but two log records, where \<open>stop\<close> on
  that strategy would have moved the machine on to STOPPING.
\<close>

theorem start_falls_back_counterexample:
  "data_engine unregistered0 = None
   \<and> start plain_user unregistered0
       = Returned (unregistered0\<lparr>fsm := create_component_fsm\<lparr>fsm_state := STARTING\<rparr>,
                                  logged := [INFO, ERROR]\<rparr>)
   \<and> stop plain_user (unregistered0\<lparr>fsm := create_component_fsm\<lparr>fsm_state := STARTING\<rparr>,
                                  logged := [INFO, ERROR]\<rparr>)
       = Raised ValueError (unregistered0\<lparr>fsm := create_component_fsm\<lparr>fsm_state := STOPPING\<rparr>,
                                  logged := [INFO, ERROR, INFO]\<rparr>)"
  by (simp add: unregistered0_def lifecycle_defs example_defs)

text \<open>
  C7, as the code has it. (1) When \<open>on_save\<close> returns, \<open>save\<close> returns the two reserved
  \<open>str\<close> keys with the generators' counts, overlaid with the user's dictionary: both
  reserved keys are present, every user pair is present, and a reserved key the user
  does not use carries its count. (2) \<open>load\<close> of a dictionary that is not empty and has
  neither reserved \<open>bytes\<close> key changes no count and calls \<open>on_load\<close>. (3) \<open>load\<close> of a
  dictionary that has both reserved \<open>bytes\<close> keys with non-empty \<open>bytes\<close> values that the
  builtin \<open>int\<close> reads sets both counts and then calls \<open>on_load\<close>.
\<close>

theorem save_load_contract:
  "(raises u OnSave (trace s) = None \<longrightarrow>
      (\<exists>d. save u s = (Inr d, invoke OnSave s)
          \<and> d = fmupd (Str ''PositionIdCount'') (IntVal (position_count s))
                 (fmupd (Str ''OrderIdCount'') (IntVal (order_count s)) fmempty)
               ++\<^sub>f on_save u (trace s)
          \<and> Str ''OrderIdCount'' |\<in>| fmdom d
          \<and> Str ''PositionIdCount'' |\<in>| fmdom d
          \<and> (\<forall>k v. fmlookup (on_save u (trace s)) k = Some v \<longrightarrow> fmlookup d k = Some v)
          \<and> (fmlookup (on_save u (trace s)) (Str ''OrderIdCount'') = None \<longrightarrow>
                fmlookup d (Str ''OrderIdCount'') = Some (IntVal (order_count s)))
          \<and> (fmlookup (on_save u (trace s)) (Str ''PositionIdCount'') = None \<longrightarrow>
                fmlookup d (Str ''PositionIdCount'') = Some (IntVal (position_count s)))))
   \<and> (fmdom state \<noteq> {||}
        \<and> fmlookup state (Bytes ''OrderIdCount'') = None
        \<and> fmlookup state (Bytes ''PositionIdCount'') = None \<longrightarrow>
        load int_of_bytes u s state = Returned (swallowed_callback u (OnLoad state) s))
   \<and> (\<forall>a b n m.
        fmlookup state (Bytes ''OrderIdCount'') = Some (BytesVal a) \<and> a \<noteq> [] \<and> int_of_bytes a = Inr n
        \<and> fmlookup state (Bytes ''PositionIdCount'') = Some (BytesVal b) \<and> b \<noteq> [] \<and> int_of_bytes b = Inr m \<longrightarrow>
        load int_of_bytes u s state =
          Returned (swallowed_callback u (OnLoad state)
            (write_log INFO ((write_log INFO (s\<lparr>order_count := n\<rparr>))\<lparr>position_count := m\<rparr>))))"
proof -
  have saved: "\<exists>d. save u s = (Inr d, invoke OnSave s)
          \<and> d = fmupd (Str ''PositionIdCount'') (IntVal (position_count s))
                 (fmupd (Str ''OrderIdCount'') (IntVal (order_count s)) fmempty)
               ++\<^sub>f on_save u (trace s)
          \<and> Str ''OrderIdCount'' |\<in>| fmdom d
          \<and> Str ''PositionIdCount'' |\<in>| fmdom d
          \<and> (\<forall>k v. fmlookup (on_save u (trace s)) k = Some v \<longrightarrow> fmlookup d k = Some v)
          \<and> (fmlookup (on_save u (trace s)) (Str ''OrderIdCount'') = None \<longrightarrow>
                fmlookup d (Str ''OrderIdCount'') = Some (IntVal (order_count s)))
          \<and> (fmlookup (on_save u (trace s)) (Str ''PositionIdCount'') = None \<longrightarrow>
                fmlookup d (Str ''PositionIdCount'') = Some (IntVal (position_count s)))"
    if "raises u OnSave (trace s) = None"
    using save_returns [OF that] by (auto simp: fmdom_notI)
  have absent: "fmdom state \<noteq> {||}
        \<and> fmlookup state (Bytes ''OrderIdCount'') = None
        \<and> fmlookup state (Bytes ''PositionIdCount'') = None \<longrightarrow>
        load int_of_bytes u s state = Returned (swallowed_callback u (OnLoad state) s)"
    using load_absent by blast
  have present: "\<forall>a b n m.
        fmlookup state (Bytes ''OrderIdCount'') = Some (BytesVal a) \<and> a \<noteq> [] \<and> int_of_bytes a = Inr n
        \<and> fmlookup state (Bytes ''PositionIdCount'') = Some (BytesVal b) \<and> b \<noteq> [] \<and> int_of_bytes b = Inr m \<longrightarrow>
        load int_of_bytes u s state =
          Returned (swallowed_callback u (OnLoad state)
            (write_log INFO ((write_log INFO (s\<lparr>order_count := n\<rparr>))\<lparr>position_count := m\<rparr>)))"
    using load_present by blast
  from saved absent present show ?thesis by blast
qed

theorem save_load_contract_witness:
  "fst (save saving_user strategy0)
     = Inr (fmupd (Str ''PositionIdCount'') (IntVal 0) (fmupd (Str ''OrderIdCount'') (IntVal 0) fmempty)
            ++\<^sub>f fmupd (Str ''UserKey'') (IntVal 1) fmempty)
   \<and> load ascii_int plain_user strategy0 user_only_state
       = Returned (strategy0\<lparr>trace := [Call (OnLoad user_only_state)]\<rparr>)
   \<and> load ascii_int plain_user strategy0 stored_state
       = Returned (strategy0\<lparr>order_count := 17, position_count := 3,
                             trace := [Call (OnLoad stored_state)], logged := [INFO, INFO]\<rparr>)"
proof -
  have "raises saving_user OnSave (trace strategy0) = None"
    by (simp add: saving_user_def)
  with save_load_contract [where u = saving_user and s = strategy0]
  have "\<exists>d. save saving_user strategy0 = (Inr d, invoke OnSave strategy0)
          \<and> d = fmupd (Str ''PositionIdCount'') (IntVal (position_count strategy0))
                 (fmupd (Str ''OrderIdCount'') (IntVal (order_count strategy0)) fmempty)
               ++\<^sub>f on_save saving_user (trace strategy0)"
    by blast
  then have 1: "fst (save saving_user strategy0)
     = Inr (fmupd (Str ''PositionIdCount'') (IntVal 0) (fmupd (Str ''OrderIdCount'') (IntVal 0) fmempty)
            ++\<^sub>f fmupd (Str ''UserKey'') (IntVal 1) fmempty)"
    by (auto simp: strategy0_counts saving_user_def)
  have "fmdom user_only_state \<noteq> {||}
        \<and> fmlookup user_only_state (Bytes ''OrderIdCount'') = None
        \<and> fmlookup user_only_state (Bytes ''PositionIdCount'') = None"
    by (simp add: user_only_state_def)
  with save_load_contract [where u = plain_user and s = strategy0 and state = user_only_state and int_of_bytes = ascii_int]
  have "load ascii_int plain_user strategy0 user_only_state
       = Returned (swallowed_callback plain_user (OnLoad user_only_state) strategy0)"
    by blast
  then have 2: "load ascii_int plain_user strategy0 user_only_state
       = Returned (strategy0\<lparr>trace := [Call (OnLoad user_only_state)]\<rparr>)"
    by (simp add: swallowed_callback_def plain_user_def invoke_def strategy0_counts)
  have "fmlookup stored_state (Bytes ''OrderIdCount'') = Some (BytesVal ''17'') \<and> ''17'' \<noteq> []
        \<and> ascii_int ''17'' = Inr 17
        \<and> fmlookup stored_state (Bytes ''PositionIdCount'') = Some (BytesVal ''3'') \<and> ''3'' \<noteq> []
        \<and> ascii_int ''3'' = Inr 3"
    by (simp add: stored_state_def ascii_int_examples)
  with save_load_contract [where u = plain_user and s = strategy0 and state = stored_state and int_of_bytes = ascii_int]
  have "load ascii_int plain_user strategy0 stored_state =
          Returned (swallowed_callback plain_user (OnLoad stored_state)
            (write_log INFO ((write_log INFO (strategy0\<lparr>order_count := 17\<rparr>))\<lparr>position_count := 3\<rparr>)))"
    by blast
  then have 3: "load ascii_int plain_user strategy0 stored_state
       = Returned (strategy0\<lparr>order_count := 17, position_count := 3,
                             trace := [Call (OnLoad stored_state)], logged := [INFO, INFO]\<rparr>)"
    by (simp add: swallowed_callback_def plain_user_def invoke_def write_log_def strategy0_eval
          TradingStrategy_init_def)
  from 1 2 3 show ?thesis by blast
qed

text \<open>
  C7 as stated fails twice: \<open>load\<close> refuses the empty dictionary, in which both reserved
  keys are absent; and the dictionary \<open>save\<close> returns has the reserved keys as \<open>str\<close>
  objects, which \<open>load\<close>, looking for \<open>bytes\<close> keys, passes over without reseeding.
\<close>

theorem save_load_contract_counterexample:
  "fmlookup fmempty (Bytes ''OrderIdCount'') = (None :: Val option)
   \<and> fmlookup fmempty (Bytes ''PositionIdCount'') = (None :: Val option)
   \<and> load ascii_int plain_user strategy0 fmempty = Raised ValueError strategy0
   \<and> fst (save plain_user (strategy0\<lparr>order_count := 17, position_count := 3\<rparr>))
       = Inr (fmupd (Str ''PositionIdCount'') (IntVal 3) (fmupd (Str ''OrderIdCount'') (IntVal 17) fmempty))
   \<and> load ascii_int plain_user strategy0
         (fmupd (Str ''PositionIdCount'') (IntVal 3) (fmupd (Str ''OrderIdCount'') (IntVal 17) fmempty))
       = Returned (strategy0\<lparr>trace :=
           [Call (OnLoad (fmupd (Str ''PositionIdCount'') (IntVal 3)
                            (fmupd (Str ''OrderIdCount'') (IntVal 17) fmempty)))]\<rparr>)"
  by (simp add: load_def load_order_id_count_def load_position_id_count_def save_def
        swallowed_callback_def plain_user_def invoke_def strategy0_counts)


end
